theory Spec2Isabelle
  imports Complex_Main
begin

section \<open>Python values and errors\<close>

text \<open>
  The module \<open>linopy/matrices.py\<close> reads flat tables of a model and scatters their columns
  into dense vectors. Exceptions are values: every function that can raise returns
  \<open>py_error + 'a\<close>, with \<open>Inl\<close> the exception. The two exceptions the module raises
  itself carry the message of the source; the others are raised by the interpreter, numpy,
  pandas or scipy, and carry the name of the operation (for a cast, of the dtype) that raised
  them.
\<close>

datatype py_error =
    ValueError string
  | AttributeError string
  | IndexError string
  | TypeError string
  | OverflowError string
  | InvalidIndexError string

text \<open>A numpy float: \<open>np.nan\<close> or a finite number.\<close>

datatype npfloat = NaN | Fin real

section \<open>Element types of numpy arrays\<close>

text \<open>
  A numpy array has one element type, its dtype. \<open>np.full(shape, fill_value)\<close> takes the
  dtype from \<open>fill_value\<close>, and an assignment \<open>vector[indices] = values\<close> casts the
  values to the dtype of \<open>vector\<close>: a string is cut to the width of the dtype, an integer
  that does not fit raises OverflowError. In Python the dtype is found at run time from the
  values. Here the values of an array have one HOL type, and the behaviour of numpy at that
  type is given by a descriptor: \<open>full_value d fill_value\<close> is the element that
  \<open>np.full(shape, fill_value)\<close> holds at every position, and \<open>astype d fill_value v\<close> is
  what becomes of \<open>v\<close> when it is assigned into that array, the element stored or the
  exception of the cast. Values of another Python type than \<open>fill_value\<close> are not part
  of the model.
\<close>

record 'a dtype =
  full_value :: "'a \<Rightarrow> 'a"
  astype :: "'a \<Rightarrow> 'a \<Rightarrow> py_error + 'a"

text \<open>Floats: the dtype is \<open>float64\<close>, and a float is stored as it is.\<close>

definition float64 :: "npfloat dtype" where
  "float64 = \<lparr>full_value = (\<lambda>fill_value. fill_value), astype = (\<lambda>fill_value v. Inr v)\<rparr>"

text \<open>
  Strings: the dtype of \<open>np.full(shape, fill_value)\<close> is \<open><Uw\<close>, strings of at most
  \<open>w\<close> characters, where \<open>w\<close> is the length of \<open>fill_value\<close> and at least one. A longer
  string is cut to its first \<open>w\<close> characters. The elements are padded with NUL characters
  in the array, so a string is read back without its trailing NUL characters.
\<close>

definition rstrip_nul :: "string \<Rightarrow> string" where
  "rstrip_nul v = rev (dropWhile (\<lambda>c. c = CHR 0x00) (rev v))"

definition unicode :: "string dtype" where
  "unicode =
     \<lparr>full_value = rstrip_nul,
      astype = (\<lambda>fill_value v. Inr (rstrip_nul (take (max 1 (length fill_value)) v)))\<rparr>"

text \<open>
  Integers: the dtype of \<open>np.full(shape, fill_value)\<close> is \<open>int64\<close> when the Python
  integer \<open>fill_value\<close> is in the range of \<open>int64\<close>, \<open>uint64\<close> when it is above it and in
  the range of \<open>uint64\<close>, and \<open>object\<close>, which holds any Python integer, otherwise.
\<close>

definition in_int64 :: "int \<Rightarrow> bool" where
  "in_int64 v \<longleftrightarrow> - (2 ^ 63) \<le> v \<and> v < 2 ^ 63"

definition in_uint64 :: "int \<Rightarrow> bool" where
  "in_uint64 v \<longleftrightarrow> 0 \<le> v \<and> v < 2 ^ 64"

text \<open>
  The values are Python integers, as in a list: one that is out of the range of the dtype
  raises OverflowError (for \<open>uint64\<close>, as numpy 2 does).
\<close>

definition python_int :: "int dtype" where
  "python_int =
     \<lparr>full_value = (\<lambda>fill_value. fill_value),
      astype = (\<lambda>fill_value v.
        if in_int64 fill_value
        then (if in_int64 v then Inr v else Inl (OverflowError ''int64''))
        else if in_uint64 fill_value
        then (if in_uint64 v then Inr v else Inl (OverflowError ''uint64''))
        else Inr v)\<rparr>"

text \<open>
  The values are the elements of an \<open>int64\<close> array, as the integer columns of a pandas
  DataFrame are: they are in the range of \<open>int64\<close>, the cast to \<open>int64\<close> and to
  \<open>object\<close> leaves them as they are, and the cast to \<open>uint64\<close> is modulo \<open>2 ^ 64\<close>.
\<close>

definition int64_array :: "int dtype" where
  "int64_array =
     \<lparr>full_value = (\<lambda>fill_value. fill_value),
      astype = (\<lambda>fill_value v.
        if in_int64 fill_value then Inr v
        else if in_uint64 fill_value then Inr (v mod 2 ^ 64)
        else Inr v)\<rparr>"

section \<open>The dense-vector builder\<close>

text \<open>Python's builtin \<open>max\<close> raises ValueError on an empty iterable.\<close>

fun py_max :: "int list \<Rightarrow> py_error + int" where
  "py_max [] = Inl (ValueError ''max'')"
| "py_max (x # xs) = Inr (fold max xs x)"

text \<open>\<open>np.full(shape, fill_value)\<close> refuses a negative length.\<close>

definition np_full :: "'a dtype \<Rightarrow> int \<Rightarrow> 'a \<Rightarrow> py_error + 'a list" where
  "np_full d shape fill_value =
     (if shape < 0 then Inl (ValueError ''np.full'')
      else Inr (replicate (nat shape) (full_value d fill_value)))"

text \<open>
  An index of numpy: \<open>i\<close> in \<open>[-n, n)\<close> is in range, and a negative index counts from the
  end.
\<close>

definition in_range :: "nat \<Rightarrow> int \<Rightarrow> bool" where
  "in_range n i \<longleftrightarrow> - int n \<le> i \<and> i < int n"

definition norm_index :: "nat \<Rightarrow> int \<Rightarrow> nat" where
  "norm_index n i = nat (if i < 0 then i + int n else i)"

text \<open>
  The values assigned through an index array are first made an array of the dtype of the
  vector: each value is cast, and the first cast that fails raises its exception.
\<close>

fun cast_all :: "('a \<Rightarrow> py_error + 'a) \<Rightarrow> 'a list \<Rightarrow> py_error + 'a list" where
  "cast_all c [] = Inr []"
| "cast_all c (v # vs) =
     (case c v of
        Inl e \<Rightarrow> Inl e
      | Inr u \<Rightarrow> (case cast_all c vs of Inl e \<Rightarrow> Inl e | Inr us \<Rightarrow> Inr (u # us)))"

text \<open>
  They are then broadcast to the length of the index array: a sequence of the same length
  is taken as it is, a sequence of length one is repeated, any other raises ValueError.
\<close>

definition broadcast :: "nat \<Rightarrow> 'a list \<Rightarrow> py_error + 'a list" where
  "broadcast n vals =
     (if length vals = n then Inr vals
      else if length vals = 1 then Inr (replicate n (hd vals))
      else Inl (ValueError ''broadcast''))"

text \<open>The writes happen in iteration order, so a repeated index keeps the last value.\<close>

fun scatter :: "'a list \<Rightarrow> (nat \<times> 'a) list \<Rightarrow> 'a list" where
  "scatter vector [] = vector"
| "scatter vector ((i, x) # ps) = scatter (vector[i := x]) ps"

text \<open>
  \<open>vector[indices] = values\<close>, where \<open>c\<close> is the cast to the dtype of \<open>vector\<close>: an
  index out of range raises IndexError.
\<close>

definition setitem ::
  "('a \<Rightarrow> py_error + 'a) \<Rightarrow> 'a list \<Rightarrow> int list \<Rightarrow> 'a list \<Rightarrow> py_error + 'a list" where
  "setitem c vector indices vals =
     (case cast_all c vals of
        Inl e \<Rightarrow> Inl e
      | Inr cs \<Rightarrow>
          (case broadcast (length indices) cs of
             Inl e \<Rightarrow> Inl e
           | Inr vs \<Rightarrow>
               if list_all (in_range (length vector)) indices
               then Inr (scatter vector (zip (map (norm_index (length vector)) indices) vs))
               else Inl (IndexError ''setitem'')))"

text \<open>
  \<^verbatim>\<open>
  def create_vector(indices, values, fill_value=np.nan, shape=None):
      if shape is None:
          shape = max(indices) + 1
      vector = np.full(shape, fill_value)
      vector[indices] = values
      return vector
  \<close>
  The first argument \<open>d\<close> of the model is the descriptor of the element type of
  \<open>values\<close> and \<open>fill_value\<close>: the vector has the dtype that \<open>np.full\<close> takes from
  \<open>fill_value\<close>, and the values are cast to it.
\<close>

definition create_vector ::
  "'a dtype \<Rightarrow> int list \<Rightarrow> 'a list \<Rightarrow> 'a \<Rightarrow> int option \<Rightarrow> py_error + 'a list" where
  "create_vector d indices vals fill_value shape =
     (case (case shape of None \<Rightarrow> map_sum id (\<lambda>m. m + 1) (py_max indices) | Some n \<Rightarrow> Inr n) of
        Inl e \<Rightarrow> Inl e
      | Inr n \<Rightarrow>
          (case np_full d n fill_value of
             Inl e \<Rightarrow> Inl e
           | Inr vector \<Rightarrow> setitem (astype d fill_value) vector indices vals))"

section \<open>The model and its flat tables\<close>

text \<open>
  A flat table is a pandas DataFrame, kept by columns. The columns \<open>solution\<close> and
  \<open>dual\<close> exist only after a solve, so they are optional: \<open>"solution" not in df\<close> is
  \<open>v_solution df = None\<close>. The columns of a DataFrame have one length, the number of its
  rows; a statement that depends on it says so.
\<close>

record var_table =
  v_key :: "int list"
  v_labels :: "int list"
  v_lower :: "npfloat list"
  v_upper :: "npfloat list"
  v_solution :: "npfloat list option"

record con_table =
  c_key :: "int list"
  c_labels :: "int list"
  c_sign :: "string list"
  c_rhs :: "npfloat list"
  c_dual :: "npfloat list option"

text \<open>A scipy sparse matrix, by its shape and its rows written out.\<close>

record matrix =
  nrows :: nat
  ncols :: nat
  rows :: "real list list"

text \<open>
  The objective expression with its flat term table, one term per row: a linear expression
  has the rows \<open>(vars, coeffs)\<close>, a quadratic one the rows \<open>(vars1, vars2, coeffs)\<close> and
  its coefficient matrix \<open>to_matrix()\<close>.
\<close>

datatype expression =
    LinearExpression "(int \<times> npfloat) list"
  | QuadraticExpression "(int \<times> int \<times> npfloat) list" matrix

text \<open>
  What the accessor reads of the model \<open>self._parent\<close>; the model's own code is not part
  of this module, so each field is the value of the attribute or call named beside it.
\<close>

record model =
  status :: string \<comment> \<open>\<open>m.status\<close>\<close>
  variables_flat :: var_table \<comment> \<open>\<open>m.variables.flat\<close>\<close>
  constraints_flat :: con_table \<comment> \<open>\<open>m.constraints.flat\<close>\<close>
  objective_expression :: expression \<comment> \<open>\<open>m.objective.expression\<close>, \<open>m.objective.flat\<close>\<close>
  is_linear :: bool \<comment> \<open>\<open>m.is_linear\<close>\<close>
  constraints_to_matrix :: "matrix option" \<comment> \<open>\<open>m.constraints.to_matrix(filter_missings=False)\<close>\<close>

section \<open>The accessor and its cache\<close>

text \<open>
  The instance dictionary of a \<open>MatrixAccessor\<close>: a \<open>cached_property\<close> stores its value
  there under its own name at the first successful read, and later reads return the stored
  value without running the body. Only \<open>flat_vars\<close>, \<open>flat_cons\<close>, \<open>sol\<close> and
  \<open>dual\<close> are cached properties; every other view is a plain property, computed at each
  read.
\<close>

record accessor =
  cache_flat_vars :: "var_table option"
  cache_flat_cons :: "con_table option"
  cache_sol :: "npfloat list option"
  cache_dual :: "npfloat list option"

definition fresh :: accessor where
  "fresh = \<lparr>cache_flat_vars = None, cache_flat_cons = None, cache_sol = None, cache_dual = None\<rparr>"

datatype cached_prop = Flat_vars | Flat_cons | Sol | Dual

fun in_dict :: "cached_prop \<Rightarrow> accessor \<Rightarrow> bool" where
  "in_dict Flat_vars s = (cache_flat_vars s \<noteq> None)"
| "in_dict Flat_cons s = (cache_flat_cons s \<noteq> None)"
| "in_dict Sol s = (cache_sol s \<noteq> None)"
| "in_dict Dual s = (cache_dual s \<noteq> None)"

fun delattr :: "cached_prop \<Rightarrow> accessor \<Rightarrow> accessor" where
  "delattr Flat_vars s = s\<lparr>cache_flat_vars := None\<rparr>"
| "delattr Flat_cons s = s\<lparr>cache_flat_cons := None\<rparr>"
| "delattr Sol s = s\<lparr>cache_sol := None\<rparr>"
| "delattr Dual s = s\<lparr>cache_dual := None\<rparr>"

text \<open>
  \<^verbatim>\<open>
  def clean_cached_properties(self):
      for cached_prop in ["flat_vars", "flat_cons", "sol", "dual"]:
          if cached_prop in self.__dict__:
              delattr(self, cached_prop)
  \<close>
\<close>

definition clean_cached_properties :: "accessor \<Rightarrow> accessor" where
  "clean_cached_properties s =
     fold (\<lambda>cached_prop s. if in_dict cached_prop s then delattr cached_prop s else s)
       [Flat_vars, Flat_cons, Sol, Dual] s"

text \<open>
  The two cached tables:
  \<^verbatim>\<open>
  @cached_property
  def flat_vars(self):
      m = self._parent
      return m.variables.flat

  @cached_property
  def flat_cons(self):
      m = self._parent
      return m.constraints.flat
  \<close>
\<close>

definition flat_vars :: "model \<Rightarrow> accessor \<Rightarrow> var_table \<times> accessor" where
  "flat_vars m s =
     (case cache_flat_vars s of
        Some df \<Rightarrow> (df, s)
      | None \<Rightarrow> (variables_flat m, s\<lparr>cache_flat_vars := Some (variables_flat m)\<rparr>))"

definition flat_cons :: "model \<Rightarrow> accessor \<Rightarrow> con_table \<times> accessor" where
  "flat_cons m s =
     (case cache_flat_cons s of
        Some df \<Rightarrow> (df, s)
      | None \<Rightarrow> (constraints_flat m, s\<lparr>cache_flat_cons := Some (constraints_flat m)\<rparr>))"

section \<open>The derived vectors\<close>

text \<open>
  \<^verbatim>\<open>
  @property
  def vlabels(self):
      df = self.flat_vars
      return create_vector(df.key, df.labels, -1)

  @property
  def lb(self):
      df = self.flat_vars
      return create_vector(df.key, df.lower)

  @property
  def ub(self):
      df = self.flat_vars
      return create_vector(df.key, df.upper)
  \<close>
  The default fill value of the builder is \<open>np.nan\<close>.
\<close>

definition vlabels :: "model \<Rightarrow> accessor \<Rightarrow> (py_error + int list) \<times> accessor" where
  "vlabels m s =
     (let (df, s1) = flat_vars m s
      in (create_vector int64_array (v_key df) (v_labels df) (- 1) None, s1))"

definition lb :: "model \<Rightarrow> accessor \<Rightarrow> (py_error + npfloat list) \<times> accessor" where
  "lb m s =
     (let (df, s1) = flat_vars m s
      in (create_vector float64 (v_key df) (v_lower df) NaN None, s1))"

definition ub :: "model \<Rightarrow> accessor \<Rightarrow> (py_error + npfloat list) \<times> accessor" where
  "ub m s =
     (let (df, s1) = flat_vars m s
      in (create_vector float64 (v_key df) (v_upper df) NaN None, s1))"

text \<open>
  \<^verbatim>\<open>
  @cached_property
  def sol(self):
      if not self._parent.status == "ok":
          raise ValueError("Model is not optimized.")
      if "solution" not in self.flat_vars:
          del self.flat_vars  # clear cache
      df = self.flat_vars
      return create_vector(df.key, df.solution, fill_value=np.nan)
  \<close>
  Reading the column \<open>df.solution\<close> of a table without it raises AttributeError.
  \<open>sol_body\<close> is the body of the property, \<open>sol\<close> the cached property itself.
\<close>

definition sol_body :: "model \<Rightarrow> accessor \<Rightarrow> (py_error + npfloat list) \<times> accessor" where
  "sol_body m s =
     (if status m \<noteq> ''ok'' then (Inl (ValueError ''Model is not optimized.''), s)
      else
        let (df0, s1) = flat_vars m s;
            s2 = (if v_solution df0 = None then delattr Flat_vars s1 else s1);
            (df, s3) = flat_vars m s2
        in (case v_solution df of
              None \<Rightarrow> (Inl (AttributeError ''solution''), s3)
            | Some solution \<Rightarrow> (create_vector float64 (v_key df) solution NaN None, s3)))"

definition sol :: "model \<Rightarrow> accessor \<Rightarrow> (py_error + npfloat list) \<times> accessor" where
  "sol m s =
     (case cache_sol s of
        Some v \<Rightarrow> (Inr v, s)
      | None \<Rightarrow>
          (case sol_body m s of
             (Inl e, s') \<Rightarrow> (Inl e, s')
           | (Inr v, s') \<Rightarrow> (Inr v, s'\<lparr>cache_sol := Some v\<rparr>)))"

text \<open>
  \<^verbatim>\<open>
  @cached_property
  def dual(self):
      if not self._parent.status == "ok":
          raise ValueError("Model is not optimized.")
      if "dual" not in self.flat_cons:
          del self.flat_cons  # clear cache
      df = self.flat_cons
      if "dual" not in df:
          raise AttributeError(
              "Underlying is optimized but does not have dual values stored."
          )
      return create_vector(df.key, df.dual, fill_value=np.nan)
  \<close>
\<close>

definition dual_body :: "model \<Rightarrow> accessor \<Rightarrow> (py_error + npfloat list) \<times> accessor" where
  "dual_body m s =
     (if status m \<noteq> ''ok'' then (Inl (ValueError ''Model is not optimized.''), s)
      else
        let (df0, s1) = flat_cons m s;
            s2 = (if c_dual df0 = None then delattr Flat_cons s1 else s1);
            (df, s3) = flat_cons m s2
        in (case c_dual df of
              None \<Rightarrow>
                (Inl (AttributeError
                   ''Underlying is optimized but does not have dual values stored.''), s3)
            | Some d \<Rightarrow> (create_vector float64 (c_key df) d NaN None, s3)))"

definition dual :: "model \<Rightarrow> accessor \<Rightarrow> (py_error + npfloat list) \<times> accessor" where
  "dual m s =
     (case cache_dual s of
        Some v \<Rightarrow> (Inr v, s)
      | None \<Rightarrow>
          (case dual_body m s of
             (Inl e, s') \<Rightarrow> (Inl e, s')
           | (Inr v, s') \<Rightarrow> (Inr v, s'\<lparr>cache_dual := Some v\<rparr>)))"

text \<open>
  \<^verbatim>\<open>
  def clabels(self):
      df = self.flat_cons
      if df.empty:
          return np.array([], dtype=int)
      return create_vector(df.key, df.labels, fill_value=-1)
  \<close>
  A table with its columns is empty when it has no row.
\<close>

definition con_empty :: "con_table \<Rightarrow> bool" where
  "con_empty df \<longleftrightarrow> c_key df = []"

definition clabels :: "model \<Rightarrow> accessor \<Rightarrow> (py_error + int list) \<times> accessor" where
  "clabels m s =
     (let (df, s1) = flat_cons m s
      in if con_empty df then (Inr [], s1)
         else (create_vector int64_array (c_key df) (c_labels df) (- 1) None, s1))"

text \<open>
  \<^verbatim>\<open>
  def sense(self):
      df = self.flat_cons
      return create_vector(df.key, df.sign.astype(np.dtype("<U1")), fill_value="")
  \<close>
  The vector has the dtype \<open><U1\<close> of its fill value, so each sign is cut to its first
  character when it is assigned, whether or not \<open>astype\<close> has cut it before.
\<close>

definition sense :: "model \<Rightarrow> accessor \<Rightarrow> (py_error + string list) \<times> accessor" where
  "sense m s =
     (let (df, s1) = flat_cons m s
      in (create_vector unicode (c_key df) (c_sign df) [] None, s1))"

text \<open>
  \<^verbatim>\<open>
  def b(self):
      df = self.flat_cons
      return create_vector(df.key, df.rhs)
  \<close>
\<close>

definition b_vec :: "model \<Rightarrow> accessor \<Rightarrow> (py_error + npfloat list) \<times> accessor" where
  "b_vec m s =
     (let (df, s1) = flat_cons m s
      in (create_vector float64 (c_key df) (c_rhs df) NaN None, s1))"

section \<open>The objective vector and the matrices\<close>

text \<open>
  The term table the objective vector is built from. For a quadratic expression
  \<^verbatim>\<open>
  ds = ds[(ds.vars1 == -1) | (ds.vars2 == -1)]
  ds["vars"] = ds.vars1.where(ds.vars1 != -1, ds.vars2)
  \<close>
  keeps the rows with the sentinel \<open>-1\<close> in one of the two slots, and takes \<open>vars1\<close> where
  it is not the sentinel and \<open>vars2\<close> elsewhere.
\<close>

definition linear_terms :: "expression \<Rightarrow> (int \<times> npfloat) list" where
  "linear_terms e =
     (case e of
        LinearExpression ds \<Rightarrow> ds
      | QuadraticExpression ds M \<Rightarrow>
          map (\<lambda>(vars1, vars2, coeffs). (if vars1 \<noteq> - 1 then vars1 else vars2, coeffs))
            (filter (\<lambda>(vars1, vars2, coeffs). vars1 = - 1 \<or> vars2 = - 1) ds))"

text \<open>
  \<open>values.map(series)\<close> of pandas looks each value up in the index of \<open>series\<close>: the
  index must be unique (InvalidIndexError otherwise), and a value that is not in the index
  gives NaN, here \<open>None\<close>.
\<close>

definition series_map :: "int list \<Rightarrow> int list \<Rightarrow> int list \<Rightarrow> py_error + int option list" where
  "series_map vals index vs =
     (if distinct index then Inr (map (map_of (zip index vs)) vals)
      else Inl (InvalidIndexError ''map''))"

text \<open>\<open>Series.max()\<close> of pandas is NaN, here \<open>None\<close>, on an empty column.\<close>

definition series_max :: "int list \<Rightarrow> int option" where
  "series_max xs = (case xs of [] \<Rightarrow> None | x # ys \<Rightarrow> Some (fold max ys x))"

text \<open>
  \<^verbatim>\<open>
  def c(self):
      m = self._parent
      ds = m.objective.flat
      if isinstance(m.objective.expression, expressions.QuadraticExpression):
          ds = ds[(ds.vars1 == -1) | (ds.vars2 == -1)]
          ds["vars"] = ds.vars1.where(ds.vars1 != -1, ds.vars2)

      vars = ds.vars.map(self.flat_vars.set_index("labels").key)
      shape = self.flat_vars.key.max() + 1
      return create_vector(vars, ds.coeffs, fill_value=0.0, shape=shape)
  \<close>
  A NaN shape is refused by \<open>np.full\<close> (TypeError), and an index column holding NaN is a
  float column, refused as an index (IndexError).
\<close>

definition c_vec :: "model \<Rightarrow> accessor \<Rightarrow> (py_error + npfloat list) \<times> accessor" where
  "c_vec m s =
     (let ds = linear_terms (objective_expression m);
          (df, s1) = flat_vars m s
      in (case series_map (map fst ds) (v_labels df) (v_key df) of
            Inl e \<Rightarrow> (Inl e, s1)
          | Inr vars \<Rightarrow>
              (case series_max (v_key df) of
                 None \<Rightarrow> (Inl (TypeError ''np.full''), s1)
               | Some mx \<Rightarrow>
                   if list_all (\<lambda>v. v \<noteq> None) vars
                   then (create_vector float64 (map the vars) (map snd ds) (Fin 0) (Some (mx + 1)), s1)
                   else (case np_full float64 (mx + 1) (Fin 0) of
                           Inl e \<Rightarrow> (Inl e, s1)
                         | Inr vector \<Rightarrow> (Inl (IndexError ''setitem''), s1)))))"

text \<open>
  Indexing a sparse matrix by an index array: \<open>M[idx]\<close> selects rows, \<open>M[:, idx]\<close>
  columns, with the indices of numpy.
\<close>

definition take_rows :: "matrix \<Rightarrow> int list \<Rightarrow> py_error + matrix" where
  "take_rows M idx =
     (if list_all (in_range (nrows M)) idx
      then Inr \<lparr>nrows = length idx, ncols = ncols M,
                rows = map (\<lambda>i. rows M ! norm_index (nrows M) i) idx\<rparr>
      else Inl (IndexError ''getitem''))"

definition take_cols :: "matrix \<Rightarrow> int list \<Rightarrow> py_error + matrix" where
  "take_cols M idx =
     (if list_all (in_range (ncols M)) idx
      then Inr \<lparr>nrows = nrows M, ncols = length idx,
                rows = map (\<lambda>r. map (\<lambda>j. r ! norm_index (ncols M) j) idx) (rows M)\<rparr>
      else Inl (IndexError ''getitem''))"

text \<open>
  \<^verbatim>\<open>
  def A(self):
      m = self._parent
      A = m.constraints.to_matrix(filter_missings=False)
      return A[self.clabels][:, self.vlabels] if A is not None else None
  \<close>
\<close>

definition A_mat :: "model \<Rightarrow> accessor \<Rightarrow> (py_error + matrix option) \<times> accessor" where
  "A_mat m s =
     (case constraints_to_matrix m of
        None \<Rightarrow> (Inr None, s)
      | Some A \<Rightarrow>
          (case clabels m s of
             (Inl e, s1) \<Rightarrow> (Inl e, s1)
           | (Inr cl, s1) \<Rightarrow>
               (case take_rows A cl of
                  Inl e \<Rightarrow> (Inl e, s1)
                | Inr A1 \<Rightarrow>
                    (case vlabels m s1 of
                       (Inl e, s2) \<Rightarrow> (Inl e, s2)
                     | (Inr vl, s2) \<Rightarrow> (map_sum id Some (take_cols A1 vl), s2)))))"

text \<open>
  \<^verbatim>\<open>
  def Q(self):
      m = self._parent
      if m.is_linear:
          return None

      return m.objective.expression.to_matrix()[self.vlabels][:, self.vlabels]
  \<close>
  A linear expression has no method \<open>to_matrix\<close>.
\<close>

definition Q_mat :: "model \<Rightarrow> accessor \<Rightarrow> (py_error + matrix option) \<times> accessor" where
  "Q_mat m s =
     (if is_linear m then (Inr None, s)
      else
        (case objective_expression m of
           LinearExpression ds \<Rightarrow> (Inl (AttributeError ''to_matrix''), s)
         | QuadraticExpression ds M \<Rightarrow>
             (case vlabels m s of
                (Inl e, s1) \<Rightarrow> (Inl e, s1)
              | (Inr vl, s1) \<Rightarrow>
                  (case take_rows M vl of
                     Inl e \<Rightarrow> (Inl e, s1)
                   | Inr M1 \<Rightarrow>
                       (case vlabels m s1 of
                          (Inl e, s2) \<Rightarrow> (Inl e, s2)
                        | (Inr vl2, s2) \<Rightarrow> (map_sum id Some (take_cols M1 vl2), s2))))))"

section \<open>Reading a view by name\<close>

text \<open>
  The views of the accessor that read the flat tables, the status, the objective and the
  matrices of the model, and the value a read returns. (\<open>vtypes\<close> reads the containers of
  the single variable groups, which this module does not hold; its only access to the
  cache is \<open>self.flat_vars\<close>.)
\<close>

datatype view =
    View_flat_vars | View_flat_cons | View_vlabels | View_lb | View_ub | View_sol
  | View_dual | View_clabels | View_A | View_sense | View_b | View_c | View_Q

datatype view_value =
    VarTable var_table | ConTable con_table | Ints "int list" | Floats "npfloat list"
  | Strs "string list" | Mat "matrix option"

definition returning ::
  "('a \<Rightarrow> view_value) \<Rightarrow> (py_error + 'a) \<times> accessor \<Rightarrow> (py_error + view_value) \<times> accessor" where
  "returning f r = (map_sum id f (fst r), snd r)"

fun read :: "view \<Rightarrow> model \<Rightarrow> accessor \<Rightarrow> (py_error + view_value) \<times> accessor" where
  "read View_flat_vars m s = (Inr (VarTable (fst (flat_vars m s))), snd (flat_vars m s))"
| "read View_flat_cons m s = (Inr (ConTable (fst (flat_cons m s))), snd (flat_cons m s))"
| "read View_vlabels m s = returning Ints (vlabels m s)"
| "read View_lb m s = returning Floats (lb m s)"
| "read View_ub m s = returning Floats (ub m s)"
| "read View_sol m s = returning Floats (sol m s)"
| "read View_dual m s = returning Floats (dual m s)"
| "read View_clabels m s = returning Ints (clabels m s)"
| "read View_A m s = returning Mat (A_mat m s)"
| "read View_sense m s = returning Strs (sense m s)"
| "read View_b m s = returning Floats (b_vec m s)"
| "read View_c m s = returning Floats (c_vec m s)"
| "read View_Q m s = returning Mat (Q_mat m s)"

text \<open>
  A run of reads, the model being whatever it is at the time of each read: the accessor
  only holds a reference to it.
\<close>

fun reads :: "(view \<times> model) list \<Rightarrow> accessor \<Rightarrow> accessor" where
  "reads [] s = s"
| "reads ((v, m) # rs) s = reads rs (snd (read v m s))"

section \<open>A model for the examples\<close>

text \<open>
  The model of the repository's tests: \<open>x\<close> with the bounds \<open>[0, 1]\<close> and \<open>y\<close> with the
  bounds \<open>[4, 8]\<close> and \<open>[4, 10]\<close>, two instances each, labelled \<open>0, 1\<close> and \<open>2, 3\<close>; the
  objective \<open>x * y + x + x\<close>; no constraint.
\<close>

definition test_vars :: var_table where
  "test_vars =
     \<lparr>v_key = [0, 1, 2, 3], v_labels = [0, 1, 2, 3],
      v_lower = [Fin 0, Fin 0, Fin 4, Fin 4], v_upper = [Fin 1, Fin 1, Fin 8, Fin 10],
      v_solution = None\<rparr>"

definition no_cons :: con_table where
  "no_cons = \<lparr>c_key = [], c_labels = [], c_sign = [], c_rhs = [], c_dual = None\<rparr>"

definition test_matrix :: matrix where
  "test_matrix =
     \<lparr>nrows = 4, ncols = 4,
      rows = [[0, 0, 1, 0], [0, 0, 0, 1], [1, 0, 0, 0], [0, 1, 0, 0]]\<rparr>"

definition test_objective :: expression where
  "test_objective =
     QuadraticExpression
       [(0, - 1, Fin 2), (0, 2, Fin 1), (1, - 1, Fin 2), (1, 3, Fin 1)] test_matrix"

definition test_model :: model where
  "test_model =
     \<lparr>status = ''initialized'', variables_flat = test_vars, constraints_flat = no_cons,
      objective_expression = test_objective, is_linear = False,
      constraints_to_matrix = None\<rparr>"

text \<open>
  The same model with the constraint \<open>x0 + y0 <= 10\<close>, solved by a method that stores no
  dual values, solved with dual values, and after a later solve that failed.
\<close>

definition one_con :: con_table where
  "one_con =
     \<lparr>c_key = [0], c_labels = [0], c_sign = [''<=''], c_rhs = [Fin 10], c_dual = None\<rparr>"

definition solved_model :: model where
  "solved_model =
     test_model
       \<lparr>status := ''ok'',
        variables_flat := test_vars\<lparr>v_solution := Some [Fin 0, Fin 0, Fin 4, Fin 4]\<rparr>,
        constraints_flat := one_con,
        constraints_to_matrix := Some \<lparr>nrows = 1, ncols = 4, rows = [[1, 0, 1, 0]]\<rparr>\<rparr>"

definition solved_model_duals :: model where
  "solved_model_duals = solved_model\<lparr>constraints_flat := one_con\<lparr>c_dual := Some [Fin 0]\<rparr>\<rparr>"

definition failed_model :: model where
  "failed_model = solved_model_duals\<lparr>status := ''warning''\<rparr>"

text \<open>The model after a third variable \<open>z\<close> with one instance, labelled \<open>4\<close>, was added.\<close>

definition grown_model :: model where
  "grown_model =
     test_model
       \<lparr>variables_flat :=
          \<lparr>v_key = [0, 1, 2, 3, 4], v_labels = [0, 1, 2, 3, 4],
           v_lower = [Fin 0, Fin 0, Fin 4, Fin 4, Fin 0],
           v_upper = [Fin 1, Fin 1, Fin 8, Fin 10, Fin 1], v_solution = None\<rparr>\<rparr>"

text \<open>The model with the linear objective \<open>2 x\<close>.\<close>

definition linear_objective :: expression where
  "linear_objective = LinearExpression [(0, Fin 2), (1, Fin 2)]"

definition linear_model :: model where
  "linear_model = test_model\<lparr>objective_expression := linear_objective, is_linear := True\<rparr>"

text \<open>
  A model that declares the same four variable instances, of which the one labelled \<open>1\<close>
  is masked: the flat table has the rows of the three others, with dense keys, and the
  objective is \<open>x0 * y0 + 2 x0\<close>. Its full quadratic matrix is over the four declared
  instances.
\<close>

definition masked_vars :: var_table where
  "masked_vars =
     \<lparr>v_key = [0, 1, 2], v_labels = [0, 2, 3], v_lower = [Fin 0, Fin 4, Fin 4],
      v_upper = [Fin 1, Fin 8, Fin 10], v_solution = None\<rparr>"

definition masked_matrix :: matrix where
  "masked_matrix =
     \<lparr>nrows = 4, ncols = 4,
      rows = [[0, 0, 1, 0], [0, 0, 0, 0], [1, 0, 0, 0], [0, 0, 0, 0]]\<rparr>"

definition masked_model :: model where
  "masked_model =
     test_model
       \<lparr>variables_flat := masked_vars,
        objective_expression :=
          QuadraticExpression [(0, - 1, Fin 2), (0, 2, Fin 1)] masked_matrix\<rparr>"

section \<open>Properties of the dense-vector builder\<close>

lemma fold_max_Max: "fold max xs (x::int) = Max (set (x # xs))"
  using Max.set_eq_fold [of x xs] by simp

lemma length_scatter: "length (scatter vector ps) = length vector"
  by (induction ps arbitrary: vector) auto

lemma scatter_untouched:
  "p \<notin> fst ` set ps \<Longrightarrow> scatter vector ps ! p = vector ! p"
  by (induction ps arbitrary: vector) auto

lemma scatter_last:
  assumes "length is = length vals" "j < length is"
    and "\<forall>k<length is. j < k \<longrightarrow> is ! k \<noteq> is ! j"
    and "\<forall>i\<in>set is. i < length vector"
  shows "scatter vector (zip is vals) ! (is ! j) = vals ! j"
  using assms
proof (induction "is" arbitrary: vals vector j)
  case Nil
  then show ?case by simp
next
  case (Cons a "is")
  then obtain b vs where vals: "vals = b # vs"
    by (cases vals) auto
  show ?case
  proof (cases j)
    case 0
    have "a \<notin> set is"
    proof
      assume "a \<in> set is"
      then obtain k where "k < length is" "is ! k = a"
        by (auto simp: in_set_conv_nth)
      with Cons.prems(3) 0 show False
        by (auto dest: spec [of _ "Suc k"])
    qed
    then have "a \<notin> fst ` set (zip is vs)"
      by (auto dest: set_zip_leftD)
    with 0 vals Cons.prems(4) show ?thesis
      by (simp add: scatter_untouched)
  next
    case (Suc j')
    have "scatter (vector[a := b]) (zip is vs) ! (is ! j') = vs ! j'"
    proof (rule Cons.IH)
      show "length is = length vs" using Cons.prems(1) vals by simp
      show "j' < length is" using Cons.prems(2) Suc by simp
      show "\<forall>k<length is. j' < k \<longrightarrow> is ! k \<noteq> is ! j'"
        using Cons.prems(3) Suc by (auto dest: spec [of _ "Suc k" for k])
      show "\<forall>i\<in>set is. i < length (vector[a := b])"
        using Cons.prems(4) by simp
    qed
    with Suc vals show ?thesis by simp
  qed
qed

lemma norm_index_nonneg: "0 \<le> i \<Longrightarrow> norm_index n i = nat i"
  by (simp add: norm_index_def)

lemma cast_all_length: "cast_all c vals = Inr cs \<Longrightarrow> length cs = length vals"
proof (induction vals arbitrary: cs)
  case Nil
  then show ?case by simp
next
  case (Cons v vals)
  then show ?case by (auto split: sum.splits)
qed

lemma cast_all_nth:
  "cast_all c vals = Inr cs \<Longrightarrow> j < length vals \<Longrightarrow> c (vals ! j) = Inr (cs ! j)"
proof (induction vals arbitrary: cs j)
  case Nil
  then show ?case by simp
next
  case (Cons v vals)
  then show ?case by (cases j) (auto split: sum.splits)
qed

lemma cast_all_same: "\<forall>v\<in>set vals. c v = Inr v \<Longrightarrow> cast_all c vals = Inr vals"
  by (induction vals) simp_all

lemma cast_all_total:
  "\<forall>v\<in>set vals. \<exists>u. c v = Inr u \<Longrightarrow> \<exists>cs. cast_all c vals = Inr cs"
proof (induction vals)
  case Nil
  then show ?case by simp
next
  case (Cons v vals)
  then obtain u cs where "c v = Inr u" "cast_all c vals = Inr cs" by auto
  then show ?case by simp
qed

lemma setitem_nonneg:
  assumes "cast_all c vals = Inr cs" "length vals = length idx"
    and "\<forall>i\<in>set idx. 0 \<le> i \<and> i < int (length vector)"
  shows "setitem c vector idx vals = Inr (scatter vector (zip (map nat idx) cs))"
proof -
  have r: "list_all (in_range (length vector)) idx"
    using assms(3) by (auto simp: list_all_iff in_range_def)
  have m: "map (norm_index (length vector)) idx = map nat idx"
    using assms(3) by (auto simp: norm_index_nonneg)
  have "length cs = length idx"
    using cast_all_length [OF assms(1)] assms(2) by simp
  then show ?thesis
    using assms(1) r by (simp add: setitem_def broadcast_def m)
qed

lemma create_vector_shape_cast:
  assumes "cast_all (astype d fill_value) vals = Inr cs" "length vals = length idx"
    and "\<forall>i\<in>set idx. 0 \<le> i \<and> i < n" "0 \<le> n"
  shows "create_vector d idx vals fill_value (Some n) =
         Inr (scatter (replicate (nat n) (full_value d fill_value)) (zip (map nat idx) cs))"
proof -
  have "setitem (astype d fill_value) (replicate (nat n) (full_value d fill_value)) idx vals =
        Inr (scatter (replicate (nat n) (full_value d fill_value)) (zip (map nat idx) cs))"
    using assms by (intro setitem_nonneg) auto
  with assms(4) show ?thesis
    by (simp add: create_vector_def np_full_def)
qed

lemma create_vector_max_cast:
  assumes "cast_all (astype d fill_value) vals = Inr cs"
    and "idx \<noteq> []" "length vals = length idx" "\<forall>i\<in>set idx. 0 \<le> i"
  shows "create_vector d idx vals fill_value None =
         Inr (scatter (replicate (nat (Max (set idx) + 1)) (full_value d fill_value))
                (zip (map nat idx) cs))"
proof -
  obtain x xs where idx: "idx = x # xs"
    using assms(2) by (cases idx) auto
  have mx: "py_max idx = Inr (Max (set idx))"
    by (simp add: idx fold_max_Max)
  have le: "\<forall>i\<in>set idx. i \<le> Max (set idx)"
    by simp
  have "0 \<le> x" "x \<le> Max (set idx)"
    using assms(4) le by (simp_all add: idx)
  then have nn: "0 \<le> Max (set idx) + 1"
    by linarith
  have "create_vector d idx vals fill_value None =
        create_vector d idx vals fill_value (Some (Max (set idx) + 1))"
    by (simp add: create_vector_def mx)
  also have "\<dots> = Inr (scatter (replicate (nat (Max (set idx) + 1)) (full_value d fill_value))
                     (zip (map nat idx) cs))"
    using assms(1,3,4) le nn by (intro create_vector_shape_cast) auto
  finally show ?thesis .
qed

text \<open>
  The two element types of the accessor's vectors: a float in a \<open>float64\<close> vector and an
  element of an \<open>int64\<close> column in the vector of the labels, whose fill value is \<open>-1\<close>,
  are stored as they are.
\<close>

lemma float64_same [simp]:
  "full_value float64 fill_value = fill_value" "astype float64 fill_value v = Inr v"
  by (simp_all add: float64_def)

lemma int64_array_same [simp]:
  "full_value int64_array fill_value = fill_value" "astype int64_array (- 1) v = Inr v"
  by (simp_all add: int64_array_def in_int64_def)

lemma create_vector_shape:
  assumes "length vals = length idx" "\<forall>i\<in>set idx. 0 \<le> i \<and> i < n" "0 \<le> n"
  shows "create_vector float64 idx vals fill_value (Some n) =
         Inr (scatter (replicate (nat n) fill_value) (zip (map nat idx) vals))"
  using create_vector_shape_cast [of float64 fill_value vals vals idx n] assms
  by (simp add: cast_all_same)

lemma create_vector_max:
  assumes "idx \<noteq> []" "length vals = length idx" "\<forall>i\<in>set idx. 0 \<le> i"
  shows "create_vector int64_array idx vals (- 1) None =
         Inr (scatter (replicate (nat (Max (set idx) + 1)) (- 1)) (zip (map nat idx) vals))"
  using create_vector_max_cast [of int64_array "- 1" vals vals idx] assms
  by (simp add: cast_all_same)

lemma create_vector_empty: "create_vector d [] vals fill_value None = Inl (ValueError ''max'')"
  by (simp add: create_vector_def)

lemma last_occurrence:
  "i \<in> set xs \<Longrightarrow> \<exists>j<length xs. xs ! j = i \<and> (\<forall>k<length xs. j < k \<longrightarrow> xs ! k \<noteq> i)"
proof (induction xs)
  case Nil
  then show ?case by simp
next
  case (Cons a xs)
  show ?case
  proof (cases "i \<in> set xs")
    case True
    with Cons.IH obtain j where
      j: "j < length xs" "xs ! j = i" "\<forall>k<length xs. j < k \<longrightarrow> xs ! k \<noteq> i"
      by blast
    have "(a # xs) ! k \<noteq> i" if "k < length (a # xs)" "Suc j < k" for k
    proof -
      from that obtain k' where "k = Suc k'" "k' < length xs" "j < k'"
        by (cases k) auto
      with j(3) show ?thesis by simp
    qed
    with j(1,2) show ?thesis
      by (intro exI [of _ "Suc j"]) simp
  next
    case False
    with Cons.prems have a: "a = i" by simp
    have "(a # xs) ! k \<noteq> i" if "k < length (a # xs)" "0 < k" for k
    proof -
      from that obtain k' where "k = Suc k'" "k' < length xs"
        by (cases k) auto
      with False show ?thesis by auto
    qed
    with a show ?thesis
      by (intro exI [of _ 0]) simp
  qed
qed

lemma scatter_nonneg_last:
  assumes "length vals = length idx" "\<forall>i\<in>set idx. 0 \<le> i \<and> i < int n"
    and "j < length idx" "\<forall>k<length idx. j < k \<longrightarrow> idx ! k \<noteq> idx ! j"
  shows "scatter (replicate n fill_value) (zip (map nat idx) vals) ! nat (idx ! j) = vals ! j"
proof -
  have "scatter (replicate n fill_value) (zip (map nat idx) vals) ! (map nat idx ! j) = vals ! j"
  proof (rule scatter_last)
    show "length (map nat idx) = length vals" using assms(1) by simp
    show "j < length (map nat idx)" using assms(3) by simp
    show "\<forall>k<length (map nat idx). j < k \<longrightarrow> map nat idx ! k \<noteq> map nat idx ! j"
    proof (intro allI impI)
      fix k assume k: "k < length (map nat idx)" "j < k"
      then have "idx ! k \<noteq> idx ! j" using assms(4) by simp
      moreover have "0 \<le> idx ! k" "0 \<le> idx ! j"
        using assms(2,3) k(1) by auto
      ultimately show "map nat idx ! k \<noteq> map nat idx ! j"
        using k(1) assms(3) by simp
    qed
    show "\<forall>a\<in>set (map nat idx). a < length (replicate n fill_value)"
      using assms(2) by auto
  qed
  then show ?thesis using assms(3) by simp
qed

lemma scatter_nonneg_untouched:
  assumes "\<forall>i\<in>set idx. 0 \<le> i" "p < n" "int p \<notin> set idx"
  shows "scatter (replicate n fill_value) (zip (map nat idx) vals) ! p = fill_value"
proof -
  have "p \<notin> fst ` set (zip (map nat idx) vals)"
  proof
    assume "p \<in> fst ` set (zip (map nat idx) vals)"
    then have "p \<in> set (map nat idx)" by (auto dest: set_zip_leftD)
    then obtain i where "i \<in> set idx" "p = nat i" by auto
    with assms(1,3) show False by auto
  qed
  then show ?thesis using assms(2) by (simp add: scatter_untouched)
qed

lemma Max_bound:
  assumes "\<forall>i\<in>set idx. (0::int) \<le> i"
  shows "\<forall>i\<in>set idx. 0 \<le> i \<and> i < int (nat (Max (set idx) + 1))"
proof
  fix i assume i: "i \<in> set idx"
  then have "i \<le> Max (set idx)" by simp
  moreover have "0 \<le> i" using assms i by simp
  ultimately show "0 \<le> i \<and> i < int (nat (Max (set idx) + 1))" by simp
qed

text \<open>
  Claim C1, as stated: for every value sequence and fill value, the vector holds at \<open>i\<close>
  the value paired with the last occurrence of \<open>i\<close>. The vector has the dtype of the fill
  value and the values are cast to it: with the fill value \<open>""\<close> the string \<open>"ab"\<close> is
  stored as \<open>"a"\<close>, and with the fill value \<open>-1\<close> the Python integer \<open>2 ^ 63\<close> raises
  OverflowError.
\<close>

theorem create_vector_cast_counterexample:
  "create_vector unicode [0] [''ab''] [] None = Inr [''a'']
   \<and> create_vector unicode [0] [''ab''] [] None \<noteq> Inr [''ab'']
   \<and> create_vector python_int [0] [2 ^ 63] (- 1) None = Inl (OverflowError ''int64'')"
  by (simp add: create_vector_def np_full_def setitem_def broadcast_def in_range_def
      norm_index_def unicode_def python_int_def rstrip_nul_def in_int64_def)

text \<open>
  Claim C1, amended. For every non-empty index sequence \<open>idx\<close> of dense keys (non-negative
  integers) with a parallel value sequence \<open>vals\<close> and a fill value, all of whose values
  can be cast to the element type that the vector takes from the fill value,
  \<open>create_vector\<close> with the shape omitted returns a vector of length exactly
  \<open>max(idx) + 1\<close>; for every \<open>i\<close> occurring in \<open>idx\<close> the vector holds at \<open>i\<close> the cast
  of the value paired with the last occurrence \<open>j\<close> of \<open>i\<close> (no later position of \<open>idx\<close>
  holds \<open>i\<close>), and every position that does not occur in \<open>idx\<close> holds the fill value as
  the vector stores it. When the cast leaves every value as it is, the vector holds at
  \<open>i\<close> the value paired with the last occurrence of \<open>i\<close> itself.
\<close>

theorem create_vector_scatter:
  assumes "idx \<noteq> []" "length vals = length idx" "\<forall>i\<in>set idx. 0 \<le> i"
    and "\<forall>v\<in>set vals. \<exists>u. astype d fill_value v = Inr u"
  shows "\<exists>vector. create_vector d idx vals fill_value None = Inr vector
           \<and> int (length vector) = Max (set idx) + 1
           \<and> (\<forall>i\<in>set idx. \<exists>j<length idx. idx ! j = i
                  \<and> (\<forall>k<length idx. j < k \<longrightarrow> idx ! k \<noteq> i)
                  \<and> astype d fill_value (vals ! j) = Inr (vector ! nat i)
                  \<and> (astype d fill_value (vals ! j) = Inr (vals ! j)
                        \<longrightarrow> vector ! nat i = vals ! j))
           \<and> (\<forall>p<length vector. int p \<notin> set idx
                  \<longrightarrow> vector ! p = full_value d fill_value)"
proof -
  from cast_all_total [OF assms(4)] obtain cs where
    cs: "cast_all (astype d fill_value) vals = Inr cs"
    by blast
  have lcs: "length cs = length idx"
    using cast_all_length [OF cs] assms(2) by simp
  define n where "n = nat (Max (set idx) + 1)"
  define vector where
    "vector = scatter (replicate n (full_value d fill_value)) (zip (map nat idx) cs)"
  have cv: "create_vector d idx vals fill_value None = Inr vector"
    unfolding vector_def n_def using cs assms(1-3) by (rule create_vector_max_cast)
  have bound: "\<forall>i\<in>set idx. 0 \<le> i \<and> i < int n"
    unfolding n_def using assms(3) by (rule Max_bound)
  have len: "length vector = n"
    by (simp add: vector_def length_scatter)
  obtain x where "x \<in> set idx"
    using assms(1) by (cases idx) auto
  with bound have "0 \<le> x" "x < int n" by auto
  then have len_int: "int (length vector) = Max (set idx) + 1"
    by (simp add: len n_def split: if_splits)
  have written: "\<exists>j<length idx. idx ! j = i
                  \<and> (\<forall>k<length idx. j < k \<longrightarrow> idx ! k \<noteq> i)
                  \<and> astype d fill_value (vals ! j) = Inr (vector ! nat i)
                  \<and> (astype d fill_value (vals ! j) = Inr (vals ! j)
                        \<longrightarrow> vector ! nat i = vals ! j)" if "i \<in> set idx" for i
  proof -
    from last_occurrence [OF that] obtain j where
      j: "j < length idx" "idx ! j = i" "\<forall>k<length idx. j < k \<longrightarrow> idx ! k \<noteq> i"
      by blast
    from j(3) have "\<forall>k<length idx. j < k \<longrightarrow> idx ! k \<noteq> idx ! j"
      by (simp add: j(2))
    with lcs bound j(1) have "vector ! nat (idx ! j) = cs ! j"
      unfolding vector_def by (rule scatter_nonneg_last)
    moreover have "astype d fill_value (vals ! j) = Inr (cs ! j)"
      using cs j(1) assms(2) by (intro cast_all_nth) simp_all
    ultimately have "astype d fill_value (vals ! j) = Inr (vector ! nat i)"
      by (simp add: j(2))
    with j show ?thesis by auto
  qed
  have untouched: "vector ! p = full_value d fill_value"
    if "p < length vector" "int p \<notin> set idx" for p
  proof -
    have "p < n" using that(1) len by simp
    with assms(3) show ?thesis
      unfolding vector_def using that(2) by (rule scatter_nonneg_untouched)
  qed
  from cv len_int written untouched show ?thesis by blast
qed

theorem create_vector_scatter_witness:
  "[2, 0, 2] \<noteq> ([] :: int list) \<and> length [''ab'', ''c'', ''de''] = length [2, 0, 2 :: int]
   \<and> list_all (\<lambda>i. 0 \<le> i) [2, 0, 2 :: int]
   \<and> astype unicode [] ''ab'' = Inr ''a'' \<and> astype unicode [] ''c'' = Inr ''c''
   \<and> astype unicode [] ''de'' = Inr ''d''
   \<and> create_vector unicode [2, 0, 2] [''ab'', ''c'', ''de''] [] None = Inr [''c'', [], ''d'']
   \<and> (\<exists>vector. create_vector unicode [2, 0, 2] [''ab'', ''c'', ''de''] [] None = Inr vector
           \<and> int (length vector) = Max (set [2, 0, 2]) + 1
           \<and> (\<forall>i\<in>set [2, 0, 2]. \<exists>j<length [2, 0, 2 :: int]. [2, 0, 2] ! j = i
                  \<and> (\<forall>k<length [2, 0, 2 :: int]. j < k \<longrightarrow> [2, 0, 2] ! k \<noteq> i)
                  \<and> astype unicode [] ([''ab'', ''c'', ''de''] ! j) = Inr (vector ! nat i)
                  \<and> (astype unicode [] ([''ab'', ''c'', ''de''] ! j)
                          = Inr ([''ab'', ''c'', ''de''] ! j)
                        \<longrightarrow> vector ! nat i = [''ab'', ''c'', ''de''] ! j))
           \<and> (\<forall>p<length vector. int p \<notin> set [2, 0, 2]
                  \<longrightarrow> vector ! p = full_value unicode []))"
proof -
  have h1: "[2, 0, 2] \<noteq> ([] :: int list)" by simp
  have h2: "length [''ab'', ''c'', ''de''] = length [2, 0, 2 :: int]" by simp
  have h3: "\<forall>i\<in>set [2, 0, 2 :: int]. 0 \<le> i" by simp
  have h3': "list_all (\<lambda>i. 0 \<le> i) [2, 0, 2 :: int]" by simp
  have c: "astype unicode [] ''ab'' = Inr ''a''" "astype unicode [] ''c'' = Inr ''c''"
    "astype unicode [] ''de'' = Inr ''d''"
    by (simp_all add: unicode_def rstrip_nul_def)
  then have h4: "\<forall>v\<in>set [''ab'', ''c'', ''de'']. \<exists>u. astype unicode [] v = Inr u"
    by simp
  have v: "create_vector unicode [2, 0, 2] [''ab'', ''c'', ''de''] [] None
             = Inr [''c'', [], ''d'']"
    by (simp add: create_vector_def np_full_def setitem_def broadcast_def in_range_def
        norm_index_def unicode_def rstrip_nul_def numeral_3_eq_3)
  from create_vector_scatter [OF h1 h2 h3 h4] h1 h2 h3' c v show ?thesis by blast
qed

section \<open>Properties of the accessor\<close>

lemma flat_vars_cache:
  "cache_flat_vars (snd (flat_vars m s)) = Some (fst (flat_vars m s))"
  "cache_flat_cons (snd (flat_vars m s)) = cache_flat_cons s"
  "cache_sol (snd (flat_vars m s)) = cache_sol s"
  "cache_dual (snd (flat_vars m s)) = cache_dual s"
  by (simp_all add: flat_vars_def split: option.split)

lemma flat_cons_cache:
  "cache_flat_cons (snd (flat_cons m s)) = Some (fst (flat_cons m s))"
  "cache_flat_vars (snd (flat_cons m s)) = cache_flat_vars s"
  "cache_sol (snd (flat_cons m s)) = cache_sol s"
  "cache_dual (snd (flat_cons m s)) = cache_dual s"
  by (simp_all add: flat_cons_def split: option.split)

lemma flat_vars_cached: "cache_flat_vars s = Some df \<Longrightarrow> flat_vars m s = (df, s)"
  by (simp add: flat_vars_def)

lemma flat_vars_idem: "flat_vars m (snd (flat_vars m s)) = (fst (flat_vars m s), snd (flat_vars m s))"
  by (simp add: flat_vars_cached flat_vars_cache)

lemma snd_vlabels: "snd (vlabels m s) = snd (flat_vars m s)"
  by (simp add: vlabels_def split: prod.split)

lemma snd_lb: "snd (lb m s) = snd (flat_vars m s)"
  by (simp add: lb_def split: prod.split)

lemma snd_ub: "snd (ub m s) = snd (flat_vars m s)"
  by (simp add: ub_def split: prod.split)

lemma snd_c_vec: "snd (c_vec m s) = snd (flat_vars m s)"
  by (simp add: c_vec_def Let_def split: prod.split sum.split option.split)

lemma snd_clabels: "snd (clabels m s) = snd (flat_cons m s)"
  by (simp add: clabels_def split: prod.split)

lemma snd_sense: "snd (sense m s) = snd (flat_cons m s)"
  by (simp add: sense_def split: prod.split)

lemma snd_b_vec: "snd (b_vec m s) = snd (flat_cons m s)"
  by (simp add: b_vec_def split: prod.split)

lemma sol_body_cache:
  "cache_flat_cons (snd (sol_body m s)) = cache_flat_cons s"
  "cache_sol (snd (sol_body m s)) = cache_sol s"
  "cache_dual (snd (sol_body m s)) = cache_dual s"
  "cache_flat_vars (snd (sol_body m s)) = cache_flat_vars s
   \<or> cache_flat_vars (snd (sol_body m s)) = Some (variables_flat m)"
  by (auto simp: sol_body_def flat_vars_def Let_def split: prod.split option.split)

lemma dual_body_cache:
  "cache_flat_vars (snd (dual_body m s)) = cache_flat_vars s"
  "cache_sol (snd (dual_body m s)) = cache_sol s"
  "cache_dual (snd (dual_body m s)) = cache_dual s"
  "cache_flat_cons (snd (dual_body m s)) = cache_flat_cons s
   \<or> cache_flat_cons (snd (dual_body m s)) = Some (constraints_flat m)"
  by (auto simp: dual_body_def flat_cons_def Let_def split: prod.split option.split)


lemma vlabelsD: "vlabels m s = (r, s1) \<Longrightarrow> s1 = snd (flat_vars m s)"
  using snd_vlabels [of m s] by simp

lemma clabelsD: "clabels m s = (r, s1) \<Longrightarrow> s1 = snd (flat_cons m s)"
  using snd_clabels [of m s] by simp

lemma flat_vars_tables:
  "cache_flat_vars (snd (flat_vars m s)) = cache_flat_vars s
   \<or> cache_flat_vars (snd (flat_vars m s)) = Some (variables_flat m)"
  by (simp add: flat_vars_def split: option.split)

lemma flat_cons_tables:
  "cache_flat_cons (snd (flat_cons m s)) = cache_flat_cons s
   \<or> cache_flat_cons (snd (flat_cons m s)) = Some (constraints_flat m)"
  by (simp add: flat_cons_def split: option.split)

lemma A_mat_cache:
  "cache_sol (snd (A_mat m s)) = cache_sol s"
  "cache_dual (snd (A_mat m s)) = cache_dual s"
  "cache_flat_vars (snd (A_mat m s)) = cache_flat_vars s
   \<or> cache_flat_vars (snd (A_mat m s)) = Some (variables_flat m)"
  "cache_flat_cons (snd (A_mat m s)) = cache_flat_cons s
   \<or> cache_flat_cons (snd (A_mat m s)) = Some (constraints_flat m)"
  using flat_vars_tables [of m "snd (flat_cons m s)"] flat_cons_tables [of m s]
  by (auto simp: A_mat_def flat_vars_cache flat_cons_cache
      split: option.split prod.split sum.split dest!: vlabelsD clabelsD)

lemma Q_mat_cache:
  "cache_sol (snd (Q_mat m s)) = cache_sol s"
  "cache_dual (snd (Q_mat m s)) = cache_dual s"
  "cache_flat_vars (snd (Q_mat m s)) = cache_flat_vars s
   \<or> cache_flat_vars (snd (Q_mat m s)) = Some (variables_flat m)"
  "cache_flat_cons (snd (Q_mat m s)) = cache_flat_cons s"
  using flat_vars_tables [of m s]
  by (auto simp: Q_mat_def flat_vars_cache flat_vars_idem
      split: expression.split prod.split sum.split dest!: vlabelsD)

lemma sol_cached: "cache_sol s = Some v \<Longrightarrow> sol m s = (Inr v, s)"
  by (simp add: sol_def)

lemma dual_cached: "cache_dual s = Some v \<Longrightarrow> dual m s = (Inr v, s)"
  by (simp add: dual_def)

lemma sol_not_ok:
  "cache_sol s = None \<Longrightarrow> status m \<noteq> ''ok'' \<Longrightarrow>
   sol m s = (Inl (ValueError ''Model is not optimized.''), s)"
  by (simp add: sol_def sol_body_def)

lemma dual_not_ok:
  "cache_dual s = None \<Longrightarrow> status m \<noteq> ''ok'' \<Longrightarrow>
   dual m s = (Inl (ValueError ''Model is not optimized.''), s)"
  by (simp add: dual_def dual_body_def)

lemma sol_cache:
  "cache_flat_cons (snd (sol m s)) = cache_flat_cons s"
  "cache_dual (snd (sol m s)) = cache_dual s"
  "cache_flat_vars (snd (sol m s)) = cache_flat_vars s
   \<or> cache_flat_vars (snd (sol m s)) = Some (variables_flat m)"
  using sol_body_cache [of m s]
  by (auto simp: sol_def split: option.split prod.split sum.split)

lemma dual_cache:
  "cache_flat_vars (snd (dual m s)) = cache_flat_vars s"
  "cache_sol (snd (dual m s)) = cache_sol s"
  "cache_flat_cons (snd (dual m s)) = cache_flat_cons s
   \<or> cache_flat_cons (snd (dual m s)) = Some (constraints_flat m)"
  using dual_body_cache [of m s]
  by (auto simp: dual_def split: option.split prod.split sum.split)

lemma sol_result_cache:
  "fst (sol m s) = Inr v \<Longrightarrow> cache_sol (snd (sol m s)) = Some v"
  "fst (sol m s) = Inl e \<Longrightarrow> cache_sol (snd (sol m s)) = cache_sol s"
  using sol_body_cache(2) [of m s]
  by (auto simp: sol_def split: option.splits prod.splits sum.splits)

lemma dual_result_cache:
  "fst (dual m s) = Inr v \<Longrightarrow> cache_dual (snd (dual m s)) = Some v"
  "fst (dual m s) = Inl e \<Longrightarrow> cache_dual (snd (dual m s)) = cache_dual s"
  using dual_body_cache(3) [of m s]
  by (auto simp: dual_def split: option.splits prod.splits sum.splits)

lemma read_keeps_sol:
  "cache_sol s = Some v \<Longrightarrow> cache_sol (snd (read w m s)) = Some v"
  by (cases w)
    (simp_all add: returning_def flat_vars_cache flat_cons_cache snd_vlabels snd_lb snd_ub
      snd_c_vec snd_clabels snd_sense snd_b_vec sol_cached dual_cache A_mat_cache Q_mat_cache)

lemma read_keeps_dual:
  "cache_dual s = Some v \<Longrightarrow> cache_dual (snd (read w m s)) = Some v"
  by (cases w)
    (simp_all add: returning_def flat_vars_cache flat_cons_cache snd_vlabels snd_lb snd_ub
      snd_c_vec snd_clabels snd_sense snd_b_vec dual_cached sol_cache A_mat_cache Q_mat_cache)

lemma reads_keep_sol:
  "cache_sol s = Some v \<Longrightarrow> cache_sol (reads rs s) = Some v"
  by (induction rs arbitrary: s) (auto simp: read_keeps_sol)

lemma reads_keep_dual:
  "cache_dual s = Some v \<Longrightarrow> cache_dual (reads rs s) = Some v"
  by (induction rs arbitrary: s) (auto simp: read_keeps_dual)

lemma clean_cached_properties_fresh: "clean_cached_properties s = fresh"
  by (cases s) (simp add: clean_cached_properties_def fresh_def)


lemmas example_defs = test_vars_def no_cons_def test_matrix_def test_objective_def
  test_model_def one_con_def solved_model_def solved_model_duals_def failed_model_def
  grown_model_def fresh_def

lemmas eval_defs = create_vector_def np_full_def setitem_def broadcast_def in_range_def
  float64_def int64_array_def unicode_def python_int_def rstrip_nul_def in_int64_def in_uint64_def
  norm_index_def flat_vars_def flat_cons_def vlabels_def lb_def ub_def sol_def sol_body_def
  dual_def dual_body_def clabels_def con_empty_def sense_def b_vec_def c_vec_def
  linear_terms_def series_map_def series_max_def take_rows_def take_cols_def A_mat_def
  Q_mat_def returning_def clean_cached_properties_def eval_nat_numeral

subsection \<open>Status errors and missing duals\<close>

text \<open>
  Claim C2, as stated: for every model whose status is not \<open>"ok"\<close>, requesting the solution
  vector or the dual vector fails. The two views are cached properties, so this fails once
  a vector is cached: after a successful read on the solved model, the same accessor
  returns the cached vectors for the model whose later solve failed.
\<close>

theorem not_optimized_cached_counterexample:
  "status failed_model \<noteq> ''ok''
   \<and> fst (sol failed_model (snd (sol solved_model_duals fresh))) = Inr [Fin 0, Fin 0, Fin 4, Fin 4]
   \<and> fst (dual failed_model (snd (dual solved_model_duals fresh))) = Inr [Fin 0]"
  by (simp add: example_defs eval_defs)

text \<open>
  Claim C2, amended. For every model whose status is not \<open>"ok"\<close>: when the accessor holds
  no cached solution vector, requesting the solution vector fails at once with
  \<open>ValueError("Model is not optimized.")\<close>, returns no vector and leaves the cache as it
  was; when it holds no cached dual vector, the same holds of the dual vector.
\<close>

theorem not_optimized_uncached:
  assumes "status m \<noteq> ''ok''"
  shows "(cache_sol s = None \<longrightarrow> sol m s = (Inl (ValueError ''Model is not optimized.''), s))
       \<and> (cache_dual s = None \<longrightarrow> dual m s = (Inl (ValueError ''Model is not optimized.''), s))"
  using assms by (simp add: sol_not_ok dual_not_ok)

theorem not_optimized_uncached_witness:
  "status test_model \<noteq> ''ok'' \<and> cache_sol fresh = None \<and> cache_dual fresh = None
   \<and> sol test_model fresh = (Inl (ValueError ''Model is not optimized.''), fresh)
   \<and> dual test_model fresh = (Inl (ValueError ''Model is not optimized.''), fresh)"
proof -
  have h: "status test_model \<noteq> ''ok''" by (simp add: test_model_def)
  have c: "cache_sol fresh = None" "cache_dual fresh = None" by (simp_all add: fresh_def)
  from not_optimized_uncached [OF h, of fresh] h c show ?thesis by blast
qed

text \<open>
  Claim C3. For every model whose status is \<open>"ok"\<close> and an accessor that has to compute the
  dual vector: when the cached flat constraint table (if there is one) has no dual column
  and the table recomputed from the model has none either, requesting the dual vector fails
  with the AttributeError of the source, which is not the ValueError raised for a model
  that is not optimized; the table cache holds the recomputed table, and no dual vector is
  cached.
\<close>

theorem dual_missing:
  assumes "status m = ''ok''" "cache_dual s = None"
    and "c_dual (constraints_flat m) = None"
    and "\<forall>df. cache_flat_cons s = Some df \<longrightarrow> c_dual df = None"
  shows "fst (dual m s) =
           Inl (AttributeError ''Underlying is optimized but does not have dual values stored.'')
       \<and> fst (dual m s) \<noteq> Inl (ValueError ''Model is not optimized.'')
       \<and> cache_flat_cons (snd (dual m s)) = Some (constraints_flat m)
       \<and> cache_dual (snd (dual m s)) = None"
  using assms
  by (auto simp: dual_def dual_body_def flat_cons_def split: option.split)

theorem dual_missing_witness:
  "status solved_model = ''ok'' \<and> cache_dual fresh = None
   \<and> c_dual (constraints_flat solved_model) = None \<and> cache_flat_cons fresh = None
   \<and> fst (dual solved_model fresh) =
       Inl (AttributeError ''Underlying is optimized but does not have dual values stored.'')
   \<and> fst (dual solved_model fresh) \<noteq> Inl (ValueError ''Model is not optimized.'')
   \<and> cache_flat_cons (snd (dual solved_model fresh)) = Some (constraints_flat solved_model)
   \<and> cache_dual (snd (dual solved_model fresh)) = None"
proof -
  have h1: "status solved_model = ''ok''" by (simp add: example_defs)
  have h2: "cache_dual fresh = None" by (simp add: fresh_def)
  have h3: "c_dual (constraints_flat solved_model) = None" by (simp add: example_defs)
  have h4: "cache_flat_cons fresh = None" by (simp add: fresh_def)
  then have h4': "\<forall>df. cache_flat_cons fresh = Some df \<longrightarrow> c_dual df = None" by simp
  from dual_missing [OF h1 h2 h3 h4'] h1 h2 h3 h4 show ?thesis by blast
qed

subsection \<open>Empty constraint table\<close>

text \<open>
  Claim C6. When the flat constraint table the accessor reads is empty, \<open>clabels\<close> returns
  the empty integer array; the dense-vector builder is not called, and on that table it
  would have raised the ValueError of \<open>max\<close> on an empty sequence.
\<close>

theorem clabels_empty:
  assumes "con_empty (fst (flat_cons m s))"
  shows "clabels m s = (Inr [], snd (flat_cons m s))
       \<and> create_vector int64_array (c_key (fst (flat_cons m s))) (c_labels (fst (flat_cons m s)))
           (- 1) None
           = Inl (ValueError ''max'')"
  using assms
  by (cases "flat_cons m s") (simp add: clabels_def con_empty_def create_vector_empty)

theorem clabels_empty_witness:
  "con_empty (fst (flat_cons test_model fresh))
   \<and> fst (clabels test_model fresh) = Inr []
   \<and> clabels test_model fresh = (Inr [], snd (flat_cons test_model fresh))
   \<and> create_vector int64_array (c_key (fst (flat_cons test_model fresh)))
        (c_labels (fst (flat_cons test_model fresh))) (- 1) None = Inl (ValueError ''max'')"
proof -
  have h: "con_empty (fst (flat_cons test_model fresh))"
    by (simp add: example_defs eval_defs)
  from clabels_empty [OF h] h show ?thesis by simp
qed

subsection \<open>Clearing the cache\<close>

text \<open>
  Claim C7. After \<open>clean_cached_properties\<close> none of the four cached properties (the two
  flat tables, \<open>sol\<close> and \<open>dual\<close>; no other view is cached) is in the instance
  dictionary, whatever was cached before. The next read of any view is the read of a fresh
  accessor, so it depends on the model's current state only: the flat tables are the
  model's, and the variable-labels vector is built from the model's current flat table.
\<close>

theorem clean_cached_properties_clears:
  "\<not> in_dict p (clean_cached_properties s)
   \<and> read w m (clean_cached_properties s) = read w m fresh
   \<and> fst (flat_vars m (clean_cached_properties s)) = variables_flat m
   \<and> fst (flat_cons m (clean_cached_properties s)) = constraints_flat m
   \<and> fst (vlabels m (clean_cached_properties s)) =
       create_vector int64_array (v_key (variables_flat m)) (v_labels (variables_flat m)) (- 1)
         None"
proof -
  have "\<not> in_dict p fresh"
    by (cases p) (simp_all add: fresh_def)
  moreover have "fst (flat_vars m fresh) = variables_flat m"
    "fst (flat_cons m fresh) = constraints_flat m"
    by (simp_all add: flat_vars_def flat_cons_def fresh_def)
  moreover have "fst (vlabels m fresh) =
      create_vector int64_array (v_key (variables_flat m)) (v_labels (variables_flat m)) (- 1)
         None"
    by (simp add: vlabels_def flat_vars_def fresh_def)
  ultimately show ?thesis
    by (simp add: clean_cached_properties_fresh)
qed

theorem clean_cached_properties_clears_witness:
  "fst (vlabels grown_model (snd (vlabels test_model fresh))) = Inr [0, 1, 2, 3]
   \<and> fst (vlabels grown_model (clean_cached_properties (snd (vlabels test_model fresh))))
       = Inr [0, 1, 2, 3, 4]
   \<and> clean_cached_properties (snd (sol solved_model_duals (snd (dual solved_model_duals fresh))))
       = fresh"
proof -
  have a: "fst (vlabels grown_model (snd (vlabels test_model fresh))) = Inr [0, 1, 2, 3]"
    by (simp add: example_defs eval_defs)
  have b: "create_vector int64_array (v_key (variables_flat grown_model))
             (v_labels (variables_flat grown_model)) (- 1) None = Inr [0, 1, 2, 3, 4]"
    by (simp add: example_defs eval_defs)
  have c: "clean_cached_properties (snd (sol solved_model_duals (snd (dual solved_model_duals fresh))))
       = fresh"
    by (simp add: example_defs eval_defs)
  from clean_cached_properties_clears
    [of Flat_vars "snd (vlabels test_model fresh)" View_vlabels grown_model] a b c
  show ?thesis by simp
qed

subsection \<open>The cache across reads\<close>

text \<open>
  Claim C9, as stated: a failed access leaves every other cached view, the cached flat
  tables included, unchanged. The dual access deletes the cached flat constraint table and
  reads it again before it raises for the missing duals: an accessor that had cached the
  table of the model without constraints holds the table of the current model after the
  failed access, and a fresh accessor holds a cached table after it.
\<close>

theorem failed_read_counterexample:
  "fst (dual solved_model (snd (clabels test_model fresh))) =
     Inl (AttributeError ''Underlying is optimized but does not have dual values stored.'')
   \<and> cache_flat_cons (snd (clabels test_model fresh)) = Some no_cons
   \<and> cache_flat_cons (snd (dual solved_model (snd (clabels test_model fresh)))) = Some one_con
   \<and> no_cons \<noteq> one_con
   \<and> fst (dual solved_model fresh) =
       Inl (AttributeError ''Underlying is optimized but does not have dual values stored.'')
   \<and> cache_flat_cons fresh = None
   \<and> cache_flat_cons (snd (dual solved_model fresh)) = Some one_con"
  by (simp add: example_defs eval_defs)

text \<open>
  Claim C9, amended. Whenever the read of a view fails, the cached solution vector and the
  cached dual vector are unchanged, and each of the two cached flat tables is either
  unchanged or holds the model's current flat table. A failed read of \<open>sol\<close> leaves the
  cached flat constraint table unchanged, a failed read of \<open>dual\<close> the cached flat
  variable table, and a read of \<open>sol\<close> or \<open>dual\<close> that fails on a model whose status is
  not \<open>"ok"\<close> leaves the whole cache unchanged.
\<close>

theorem failed_read_frame:
  assumes "fst (read w m s) = Inl e"
  shows "cache_sol (snd (read w m s)) = cache_sol s
       \<and> cache_dual (snd (read w m s)) = cache_dual s
       \<and> (cache_flat_vars (snd (read w m s)) = cache_flat_vars s
            \<or> cache_flat_vars (snd (read w m s)) = Some (variables_flat m))
       \<and> (cache_flat_cons (snd (read w m s)) = cache_flat_cons s
            \<or> cache_flat_cons (snd (read w m s)) = Some (constraints_flat m))
       \<and> (w = View_sol \<longrightarrow> cache_flat_cons (snd (read w m s)) = cache_flat_cons s)
       \<and> (w = View_dual \<longrightarrow> cache_flat_vars (snd (read w m s)) = cache_flat_vars s)
       \<and> ((w = View_sol \<or> w = View_dual) \<and> status m \<noteq> ''ok'' \<longrightarrow> snd (read w m s) = s)"
proof (cases w)
  case View_sol
  with assms obtain e' where f: "fst (sol m s) = Inl e'"
    by (cases "fst (sol m s)") (auto simp: returning_def)
  then have n: "cache_sol s = None"
    by (cases "cache_sol s") (auto simp: sol_cached)
  show ?thesis
    using sol_cache [of m s] sol_result_cache(2) [OF f] sol_not_ok [OF n, of m]
    by (auto simp: View_sol returning_def)
next
  case View_dual
  with assms obtain e' where f: "fst (dual m s) = Inl e'"
    by (cases "fst (dual m s)") (auto simp: returning_def)
  then have n: "cache_dual s = None"
    by (cases "cache_dual s") (auto simp: dual_cached)
  show ?thesis
    using dual_cache [of m s] dual_result_cache(2) [OF f] dual_not_ok [OF n, of m]
    by (auto simp: View_dual returning_def)
next
  case View_A
  then show ?thesis using A_mat_cache [of m s] by (simp add: returning_def)
next
  case View_Q
  then show ?thesis using Q_mat_cache [of m s] by (simp add: returning_def)
qed (insert flat_vars_tables [of m s] flat_cons_tables [of m s],
     simp_all add: returning_def flat_vars_cache flat_cons_cache snd_vlabels snd_lb snd_ub
       snd_c_vec snd_clabels snd_sense snd_b_vec)

theorem failed_read_frame_witness:
  "fst (read View_dual solved_model (snd (sol solved_model fresh))) =
     Inl (AttributeError ''Underlying is optimized but does not have dual values stored.'')
   \<and> cache_sol (snd (read View_dual solved_model (snd (sol solved_model fresh))))
       = Some [Fin 0, Fin 0, Fin 4, Fin 4]
   \<and> cache_flat_vars (snd (read View_dual solved_model (snd (sol solved_model fresh))))
       = Some (variables_flat solved_model)
   \<and> cache_flat_cons (snd (read View_dual solved_model (snd (sol solved_model fresh))))
       = Some (constraints_flat solved_model)
   \<and> cache_dual (snd (read View_dual solved_model (snd (sol solved_model fresh)))) = None"
proof -
  have f: "fst (read View_dual solved_model (snd (sol solved_model fresh))) =
     Inl (AttributeError ''Underlying is optimized but does not have dual values stored.'')"
    by (simp add: example_defs eval_defs)
  have s: "cache_sol (snd (sol solved_model fresh)) = Some [Fin 0, Fin 0, Fin 4, Fin 4]"
    "cache_flat_vars (snd (sol solved_model fresh)) = Some (variables_flat solved_model)"
    "cache_dual (snd (sol solved_model fresh)) = None"
    by (simp_all add: example_defs eval_defs)
  have c: "cache_flat_cons (snd (read View_dual solved_model (snd (sol solved_model fresh))))
       = Some (constraints_flat solved_model)"
    by (simp add: example_defs eval_defs)
  from failed_read_frame [OF f] f s c show ?thesis by simp
qed

text \<open>
  Claim C10. After a read of the solution vector (the dual vector) has succeeded with the
  vector \<open>v\<close>, a later read returns \<open>v\<close> and leaves the cache as it is, whatever views
  were read in between and whatever the model has become, its status included: the status
  is not checked again. (The instance of the claim after \<open>clean_cached_properties\<close> is in
  the example: the read fails again.)
\<close>

theorem cached_vector_returned:
  "(fst (sol m s) = Inr v \<longrightarrow>
      sol m' (reads rs (snd (sol m s))) = (Inr v, reads rs (snd (sol m s))))
   \<and> (fst (dual m s) = Inr v \<longrightarrow>
      dual m' (reads rs (snd (dual m s))) = (Inr v, reads rs (snd (dual m s))))"
  by (simp add: sol_cached dual_cached reads_keep_sol reads_keep_dual sol_result_cache
      dual_result_cache)

theorem cached_vector_returned_witness:
  "fst (sol solved_model_duals fresh) = Inr [Fin 0, Fin 0, Fin 4, Fin 4]
   \<and> fst (dual solved_model_duals fresh) = Inr [Fin 0]
   \<and> status failed_model \<noteq> ''ok''
   \<and> fst (sol failed_model
        (reads [(View_dual, failed_model), (View_vlabels, failed_model)]
           (snd (sol solved_model_duals fresh)))) = Inr [Fin 0, Fin 0, Fin 4, Fin 4]
   \<and> fst (dual failed_model
        (reads [(View_sol, failed_model), (View_clabels, failed_model)]
           (snd (dual solved_model_duals fresh)))) = Inr [Fin 0]
   \<and> fst (sol failed_model (clean_cached_properties (snd (sol solved_model_duals fresh))))
        = Inl (ValueError ''Model is not optimized.'')"
proof -
  have a: "fst (sol solved_model_duals fresh) = Inr [Fin 0, Fin 0, Fin 4, Fin 4]"
    by (simp add: example_defs eval_defs)
  have b: "fst (dual solved_model_duals fresh) = Inr [Fin 0]"
    by (simp add: example_defs eval_defs)
  have c: "status failed_model \<noteq> ''ok''"
    by (simp add: example_defs)
  have d: "fst (sol failed_model (clean_cached_properties (snd (sol solved_model_duals fresh))))
        = Inl (ValueError ''Model is not optimized.'')"
    by (simp add: example_defs eval_defs)
  from cached_vector_returned [of solved_model_duals fresh "[Fin 0, Fin 0, Fin 4, Fin 4]"
      failed_model "[(View_dual, failed_model), (View_vlabels, failed_model)]"]
    cached_vector_returned [of solved_model_duals fresh "[Fin 0]"
      failed_model "[(View_sol, failed_model), (View_clabels, failed_model)]"]
    a b c d
  show ?thesis by simp
qed

subsection \<open>The variable labels\<close>

lemma fst_vlabels:
  "fst (vlabels m s) =
     create_vector int64_array (v_key (fst (flat_vars m s))) (v_labels (fst (flat_vars m s)))
       (- 1) None"
  by (simp add: vlabels_def split: prod.split)

text \<open>
  Claim C8. Let the flat variable table the accessor reads have dense keys (non-negative),
  one label per key and one key per label other than the sentinel \<open>-1\<close>. Then for every
  row \<open>(k, l)\<close> of the table with \<open>l \<noteq> -1\<close>, the variable-labels vector exists, holds \<open>l\<close>
  at position \<open>k\<close>, and holds \<open>l\<close> at no other position: looking \<open>l\<close> up in the vector
  gives back \<open>k\<close>.
\<close>

theorem vlabels_roundtrip:
  assumes df: "df = fst (flat_vars m s)"
    and len: "length (v_labels df) = length (v_key df)"
    and nonneg: "\<forall>k\<in>set (v_key df). 0 \<le> k"
    and one_label: "\<forall>(k, l)\<in>set (zip (v_key df) (v_labels df)).
           \<forall>(k', l')\<in>set (zip (v_key df) (v_labels df)). k = k' \<longrightarrow> l = l'"
    and one_key: "\<forall>(k, l)\<in>set (zip (v_key df) (v_labels df)).
           \<forall>(k', l')\<in>set (zip (v_key df) (v_labels df)). l = l' \<and> l \<noteq> - 1 \<longrightarrow> k = k'"
    and row: "(k, l) \<in> set (zip (v_key df) (v_labels df))" "l \<noteq> - 1"
  shows "\<exists>vl. fst (vlabels m s) = Inr vl \<and> nat k < length vl \<and> vl ! nat k = l
           \<and> (\<forall>p<length vl. vl ! p = l \<longrightarrow> int p = k)"
proof -
  define keys where "keys = v_key df"
  define labels where "labels = v_labels df"
  define n where "n = nat (Max (set keys) + 1)"
  define vl where "vl = scatter (replicate n (- 1)) (zip (map nat keys) labels)"
  have len': "length labels = length keys"
    using len by (simp add: keys_def labels_def)
  have nonneg': "\<forall>k\<in>set keys. 0 \<le> k"
    using nonneg by (simp add: keys_def)
  have row': "(k, l) \<in> set (zip keys labels)"
    using row(1) by (simp add: keys_def labels_def)
  have ol: "l1 = l2" if "(k1, l1) \<in> set (zip keys labels)" "(k1, l2) \<in> set (zip keys labels)"
    for k1 l1 l2
    using one_label that unfolding keys_def labels_def by blast
  have ok: "k1 = k2" if "(k1, l1) \<in> set (zip keys labels)" "(k2, l1) \<in> set (zip keys labels)"
    "l1 \<noteq> - 1" for k1 k2 l1
    using one_key that unfolding keys_def labels_def by blast
  have kin: "k \<in> set keys" using row' by (rule set_zip_leftD)
  then have ne: "keys \<noteq> []" by auto
  have bound: "\<forall>i\<in>set keys. 0 \<le> i \<and> i < int n"
    unfolding n_def using nonneg' by (rule Max_bound)
  have "create_vector int64_array keys labels (- 1) None = Inr vl"
    unfolding vl_def n_def using ne len' nonneg' by (rule create_vector_max)
  then have res: "fst (vlabels m s) = Inr vl"
    by (simp add: fst_vlabels df [symmetric] keys_def labels_def)
  have lenvl: "length vl = n" by (simp add: vl_def length_scatter)
  have at: "\<exists>j<length keys. keys ! j = i \<and> vl ! nat i = labels ! j" if "i \<in> set keys" for i
  proof -
    from last_occurrence [OF that] obtain j where
      j: "j < length keys" "keys ! j = i" "\<forall>k<length keys. j < k \<longrightarrow> keys ! k \<noteq> i"
      by blast
    from j(3) have "\<forall>k<length keys. j < k \<longrightarrow> keys ! k \<noteq> keys ! j"
      by (simp add: j(2))
    with len' bound j(1) have "vl ! nat (keys ! j) = labels ! j"
      unfolding vl_def by (rule scatter_nonneg_last)
    with j show ?thesis by auto
  qed
  have rows: "(keys ! j, labels ! j) \<in> set (zip keys labels)" if "j < length keys" for j
    using that len' by (auto simp: in_set_zip)
  from at [OF kin] obtain j where j: "j < length keys" "keys ! j = k" "vl ! nat k = labels ! j"
    by blast
  have "(k, labels ! j) \<in> set (zip keys labels)"
    using rows [OF j(1)] j(2) by simp
  then have "labels ! j = l"
    using row' by (rule ol)
  with j have here: "vl ! nat k = l" by simp
  have small: "nat k < length vl"
    using bound kin by (auto simp: lenvl)
  have only: "int p = k" if p: "p < length vl" "vl ! p = l" for p
  proof -
    have "int p \<in> set keys"
    proof (rule ccontr)
      assume "int p \<notin> set keys"
      moreover have "p < n" using p(1) lenvl by simp
      ultimately have "vl ! p = - 1"
        unfolding vl_def using nonneg' by (intro scatter_nonneg_untouched)
      with p(2) row(2) show False by simp
    qed
    from at [OF this] obtain j' where
      j': "j' < length keys" "keys ! j' = int p" "vl ! p = labels ! j'"
      by auto
    have "(int p, l) \<in> set (zip keys labels)"
      using rows [OF j'(1)] j' p(2) by simp
    then show ?thesis
      using row' row(2) by (rule ok)
  qed
  from res small here only show ?thesis by blast
qed

theorem vlabels_roundtrip_witness:
  "(1, 2) \<in> set (zip (v_key masked_vars) (v_labels masked_vars))
   \<and> fst (vlabels masked_model fresh) = Inr [0, 2, 3]
   \<and> (\<exists>vl. fst (vlabels masked_model fresh) = Inr vl \<and> nat 1 < length vl \<and> vl ! nat 1 = 2
           \<and> (\<forall>p<length vl. vl ! p = 2 \<longrightarrow> int p = 1))"
proof -
  have df: "masked_vars = fst (flat_vars masked_model fresh)"
    by (simp add: masked_model_def flat_vars_def fresh_def)
  have len: "length (v_labels masked_vars) = length (v_key masked_vars)"
    and nonneg: "\<forall>k\<in>set (v_key masked_vars). 0 \<le> k"
    and one_label: "\<forall>(k, l)\<in>set (zip (v_key masked_vars) (v_labels masked_vars)).
           \<forall>(k', l')\<in>set (zip (v_key masked_vars) (v_labels masked_vars)). k = k' \<longrightarrow> l = l'"
    and one_key: "\<forall>(k, l)\<in>set (zip (v_key masked_vars) (v_labels masked_vars)).
           \<forall>(k', l')\<in>set (zip (v_key masked_vars) (v_labels masked_vars)).
             l = l' \<and> l \<noteq> - 1 \<longrightarrow> k = k'"
    and row: "(1, 2) \<in> set (zip (v_key masked_vars) (v_labels masked_vars))" "(2::int) \<noteq> - 1"
    by (simp_all add: masked_vars_def)
  have v: "fst (vlabels masked_model fresh) = Inr [0, 2, 3]"
    by (simp add: masked_model_def masked_vars_def example_defs eval_defs)
  from vlabels_roundtrip [OF df len nonneg one_label one_key row] row(1) v
  show ?thesis by blast
qed

subsection \<open>The quadratic matrix\<close>

lemma vlabels_idem:
  "vlabels m (snd (vlabels m s)) = (fst (vlabels m s), snd (vlabels m s))"
proof -
  have "vlabels m (snd (flat_vars m s)) =
        (create_vector int64_array (v_key (fst (flat_vars m s))) (v_labels (fst (flat_vars m s)))
       (- 1) None,
         snd (flat_vars m s))"
    by (simp add: vlabels_def flat_vars_idem case_prod_beta)
  then show ?thesis
    by (simp add: snd_vlabels fst_vlabels)
qed

lemma fst_Q_mat:
  assumes "\<not> is_linear m" "objective_expression m = QuadraticExpression ds M"
  shows "fst (Q_mat m s) =
     (case fst (vlabels m s) of
        Inl e \<Rightarrow> Inl e
      | Inr vl \<Rightarrow>
          (case take_rows M vl of
             Inl e \<Rightarrow> Inl e
           | Inr M1 \<Rightarrow> map_sum id Some (take_cols M1 vl)))"
proof (cases "vlabels m s")
  case (Pair r s1)
  then have s1: "s1 = snd (vlabels m s)" and r: "r = fst (vlabels m s)" by simp_all
  show ?thesis
    using assms Pair vlabels_idem [of m s]
    by (simp add: Q_mat_def r [symmetric] s1 [symmetric] split: sum.split)
qed

text \<open>
  Claim C5. For a model whose objective is linear, \<open>Q\<close> returns \<open>None\<close> (no matrix) and
  reads nothing. For a model with a quadratic objective, whose coefficient matrix is \<open>M\<close>
  and whose variable-labels vector \<open>vl\<close> indexes \<open>M\<close> in range, \<open>Q\<close> returns a matrix
  of \<open>length vl\<close> rows and columns whose entry \<open>(i, j)\<close> is the entry of \<open>M\<close> at the
  labels \<open>(vl ! i, vl ! j)\<close>.
\<close>

theorem Q_mat_absent_or_reindexed:
  "(is_linear m \<longrightarrow> Q_mat m s = (Inr None, s))
   \<and> (\<not> is_linear m \<and> objective_expression m = QuadraticExpression ds M
        \<and> fst (vlabels m s) = Inr vl
        \<and> list_all (in_range (nrows M)) vl \<and> list_all (in_range (ncols M)) vl
      \<longrightarrow> (\<exists>Qm. fst (Q_mat m s) = Inr (Some Qm)
             \<and> nrows Qm = length vl \<and> ncols Qm = length vl \<and> length (rows Qm) = length vl
             \<and> (\<forall>i<length vl. \<forall>j<length vl.
                   rows Qm ! i ! j =
                   rows M ! norm_index (nrows M) (vl ! i) ! norm_index (ncols M) (vl ! j))))"
proof (intro conjI impI)
  assume "is_linear m"
  then show "Q_mat m s = (Inr None, s)"
    by (simp add: Q_mat_def)
next
  assume a: "\<not> is_linear m \<and> objective_expression m = QuadraticExpression ds M
        \<and> fst (vlabels m s) = Inr vl
        \<and> list_all (in_range (nrows M)) vl \<and> list_all (in_range (ncols M)) vl"
  define M1 where
    "M1 = \<lparr>nrows = length vl, ncols = ncols M,
            rows = map (\<lambda>i. rows M ! norm_index (nrows M) i) vl\<rparr>"
  define Qm where
    "Qm = \<lparr>nrows = nrows M1, ncols = length vl,
            rows = map (\<lambda>r. map (\<lambda>j. r ! norm_index (ncols M1) j) vl) (rows M1)\<rparr>"
  have r: "take_rows M vl = Inr M1"
    using a by (simp add: take_rows_def M1_def)
  have c: "take_cols M1 vl = Inr Qm"
    using a by (simp add: take_cols_def Qm_def M1_def)
  have "fst (Q_mat m s) = Inr (Some Qm)"
    using a r c by (simp add: fst_Q_mat [of m ds M])
  moreover have "nrows Qm = length vl" "ncols Qm = length vl" "length (rows Qm) = length vl"
    by (simp_all add: Qm_def M1_def)
  moreover have "rows Qm ! i ! j =
      rows M ! norm_index (nrows M) (vl ! i) ! norm_index (ncols M) (vl ! j)"
    if "i < length vl" "j < length vl" for i j
    using that by (simp add: Qm_def M1_def)
  ultimately show "\<exists>Qm. fst (Q_mat m s) = Inr (Some Qm)
             \<and> nrows Qm = length vl \<and> ncols Qm = length vl \<and> length (rows Qm) = length vl
             \<and> (\<forall>i<length vl. \<forall>j<length vl.
                   rows Qm ! i ! j =
                   rows M ! norm_index (nrows M) (vl ! i) ! norm_index (ncols M) (vl ! j))"
    by blast
qed

theorem Q_mat_absent_or_reindexed_witness:
  "is_linear linear_model \<and> Q_mat linear_model fresh = (Inr None, fresh)
   \<and> \<not> is_linear test_model \<and> fst (vlabels test_model fresh) = Inr [0, 1, 2, 3]
   \<and> fst (Q_mat test_model fresh) = Inr (Some test_matrix)
   \<and> (\<exists>Qm. fst (Q_mat test_model fresh) = Inr (Some Qm)
        \<and> nrows Qm = length [0, 1, 2, 3 :: int] \<and> ncols Qm = length [0, 1, 2, 3 :: int]
        \<and> length (rows Qm) = length [0, 1, 2, 3 :: int]
        \<and> (\<forall>i<length [0, 1, 2, 3 :: int]. \<forall>j<length [0, 1, 2, 3 :: int].
              rows Qm ! i ! j =
              rows test_matrix ! norm_index (nrows test_matrix) ([0, 1, 2, 3] ! i)
                ! norm_index (ncols test_matrix) ([0, 1, 2, 3] ! j)))"
proof -
  have l: "is_linear linear_model"
    by (simp add: linear_model_def)
  have q: "\<not> is_linear test_model \<and> objective_expression test_model =
       QuadraticExpression [(0, - 1, Fin 2), (0, 2, Fin 1), (1, - 1, Fin 2), (1, 3, Fin 1)]
         test_matrix
     \<and> fst (vlabels test_model fresh) = Inr [0, 1, 2, 3]
     \<and> list_all (in_range (nrows test_matrix)) [0, 1, 2, 3]
     \<and> list_all (in_range (ncols test_matrix)) [0, 1, 2, 3]"
    by (simp add: example_defs eval_defs)
  have e: "fst (Q_mat test_model fresh) = Inr (Some test_matrix)"
    by (simp add: example_defs eval_defs)
  note claim = Q_mat_absent_or_reindexed
  from claim [of linear_model fresh] l
  have 1: "Q_mat linear_model fresh = (Inr None, fresh)" by blast
  from claim [of test_model fresh
      "[(0, - 1, Fin 2), (0, 2, Fin 1), (1, - 1, Fin 2), (1, 3, Fin 1)]" test_matrix
      "[0, 1, 2, 3]"] q
  have 2: "\<exists>Qm. fst (Q_mat test_model fresh) = Inr (Some Qm)
        \<and> nrows Qm = length [0, 1, 2, 3 :: int] \<and> ncols Qm = length [0, 1, 2, 3 :: int]
        \<and> length (rows Qm) = length [0, 1, 2, 3 :: int]
        \<and> (\<forall>i<length [0, 1, 2, 3 :: int]. \<forall>j<length [0, 1, 2, 3 :: int].
              rows Qm ! i ! j =
              rows test_matrix ! norm_index (nrows test_matrix) ([0, 1, 2, 3] ! i)
                ! norm_index (ncols test_matrix) ([0, 1, 2, 3] ! j))"
    by blast
  from l 1 q e 2 show ?thesis by blast
qed

subsection \<open>The objective vector\<close>

lemma scatter_nth:
  "p < length vector \<Longrightarrow>
   scatter vector ps ! p =
     (case filter (\<lambda>(i, x). i = p) ps of [] \<Rightarrow> vector ! p | q # qs \<Rightarrow> snd (last (q # qs)))"
proof (induction ps arbitrary: vector)
  case Nil
  then show ?case by simp
next
  case (Cons a ps)
  obtain i x where a: "a = (i, x)" by (cases a)
  have "p < length (vector[i := x])" using Cons.prems by simp
  from Cons.IH [OF this] Cons.prems show ?case
    by (auto simp: a split: list.split)
qed

lemma series_max_Max: "xs \<noteq> [] \<Longrightarrow> series_max xs = Some (Max (set xs))"
  by (cases xs) (simp_all add: series_max_def fold_max_Max)

lemma case_list_map:
  "(case map f xs of [] \<Rightarrow> a | q # qs \<Rightarrow> g (last (q # qs))) =
   (case xs of [] \<Rightarrow> a | t # ts \<Rightarrow> g (f (last (t # ts))))"
  by (cases xs) (simp_all add: last_map)

text \<open>
  Claim C4, as stated: the objective vector has the length of the full count of declared
  variables, not just of the non-missing ones. The length is \<open>max(key) + 1\<close> over the flat
  variable table, the length of the variable-labels vector: in the model with four declared
  instances of which one is masked, the vector has three entries, one for each non-missing
  variable.
\<close>

theorem c_vec_length_counterexample:
  "nrows masked_matrix = 4 \<and> ncols masked_matrix = 4
   \<and> fst (vlabels masked_model fresh) = Inr [0, 2, 3]
   \<and> fst (c_vec masked_model fresh) = Inr [Fin 2, Fin 0, Fin 0]"
  by (simp add: masked_model_def masked_vars_def masked_matrix_def example_defs eval_defs)

text \<open>
  Claim C4, amended. For a model with a quadratic objective, read through a flat variable
  table with unique labels and dense keys in which every variable of a linear term has a
  row: \<open>c\<close> returns a vector of length \<open>max(key) + 1\<close>, the length of the variable-labels
  vector (one entry for each variable instance of the flat table, \<open>N\<close> entries when its
  keys are \<open>0, \<dots>, N - 1\<close>), whatever variables occur in the objective. Position \<open>p\<close>
  holds the coefficient of the last term that has the sentinel \<open>-1\<close> in one of its two
  slots and whose label (the first slot unless it is the sentinel, the second slot then)
  has the key \<open>p\<close> in the table, and \<open>0.0\<close> when there is no such term.
\<close>

theorem c_vec_quadratic:
  assumes q: "objective_expression m = QuadraticExpression ds M"
    and df: "df = fst (flat_vars m s)"
    and len: "length (v_labels df) = length (v_key df)"
    and dist: "distinct (v_labels df)"
    and ne: "v_key df \<noteq> []"
    and nonneg: "\<forall>k\<in>set (v_key df). 0 \<le> k"
    and known: "\<forall>(vars1, vars2, coeffs)\<in>set ds. vars1 = - 1 \<or> vars2 = - 1 \<longrightarrow>
                  (if vars1 \<noteq> - 1 then vars1 else vars2) \<in> set (v_labels df)"
  shows "\<exists>vector. fst (c_vec m s) = Inr vector
           \<and> int (length vector) = Max (set (v_key df)) + 1
           \<and> (\<exists>vl. fst (vlabels m s) = Inr vl \<and> length vl = length vector)
           \<and> (\<forall>N. set (v_key df) = int ` {0..<N} \<longrightarrow> length vector = N)
           \<and> (\<forall>p<length vector. vector ! p =
                 (case filter (\<lambda>(vars1, vars2, coeffs). (vars1 = - 1 \<or> vars2 = - 1)
                          \<and> map_of (zip (v_labels df) (v_key df))
                               (if vars1 \<noteq> - 1 then vars1 else vars2) = Some (int p)) ds of
                    [] \<Rightarrow> Fin 0
                  | t # ts \<Rightarrow> snd (snd (last (t # ts)))))"
proof -
  define keys where "keys = v_key df"
  define labels where "labels = v_labels df"
  define key_of where "key_of = map_of (zip labels keys)"
  define P :: "int \<times> int \<times> npfloat \<Rightarrow> bool" where
    "P = (\<lambda>(vars1, vars2, coeffs). vars1 = - 1 \<or> vars2 = - 1)"
  define g :: "int \<times> int \<times> npfloat \<Rightarrow> int \<times> npfloat" where
    "g = (\<lambda>(vars1, vars2, coeffs). (if vars1 \<noteq> - 1 then vars1 else vars2, coeffs))"
  define terms where "terms = map g (filter P ds)"
  define mx where "mx = Max (set keys)"
  define n where "n = nat (mx + 1)"
  define h :: "int \<times> npfloat \<Rightarrow> nat \<times> npfloat" where
    "h = (\<lambda>t. (nat (the (key_of (fst t))), snd t))"
  define vector where "vector = scatter (replicate n (Fin 0)) (map h terms)"
  have len': "length labels = length keys" using len by (simp add: keys_def labels_def)
  have terms: "linear_terms (objective_expression m) = terms"
    by (simp add: q linear_terms_def terms_def g_def P_def)
  have tab: "fst (flat_vars m s) = df" using df by simp
  have bound: "\<forall>i\<in>set keys. 0 \<le> i \<and> i < int n"
    unfolding n_def mx_def using nonneg by (intro Max_bound) (simp add: keys_def)
  have mx: "series_max keys = Some mx"
    using ne by (simp add: series_max_Max keys_def mx_def)
  have pos: "0 \<le> mx + 1"
  proof -
    obtain k where "k \<in> set keys" using ne by (cases keys) (auto simp: keys_def)
    with bound have "0 \<le> k" "k < int n" by auto
    then show ?thesis by (simp add: n_def split: if_splits)
  qed
  have key: "\<exists>k\<in>set keys. key_of (fst (g r)) = Some k" if r: "r \<in> set ds" "P r" for r
  proof -
    have "fst (g r) \<in> set labels"
      using known r by (auto simp: g_def P_def labels_def split: prod.splits)
    moreover have "map fst (zip labels keys) = labels"
      using len' by (simp add: map_fst_zip)
    then have "fst ` set (zip labels keys) = set labels"
      by (simp only: set_map [symmetric])
    ultimately have "fst (g r) \<in> fst ` set (zip labels keys)"
      by simp
    then obtain k where k: "key_of (fst (g r)) = Some k"
      unfolding key_of_def by (cases "map_of (zip labels keys) (fst (g r))")
        (auto simp: map_of_eq_None_iff)
    then have "(fst (g r), k) \<in> set (zip labels keys)"
      unfolding key_of_def by (rule map_of_SomeD)
    then have "k \<in> set keys" by (rule set_zip_rightD)
    with k show ?thesis by blast
  qed
  have tkey: "\<exists>k\<in>set keys. key_of (fst t) = Some k" if "t \<in> set terms" for t
    using that key by (auto simp: terms_def)
  have vars: "series_map (map fst terms) labels keys = Inr (map (\<lambda>t. key_of (fst t)) terms)"
    using dist by (simp add: series_map_def labels_def key_of_def comp_def)
  have all: "list_all (\<lambda>v. v \<noteq> None) (map (\<lambda>t. key_of (fst t)) terms)"
    using tkey by (auto simp: list_all_iff)
  have idx: "\<forall>i\<in>set (map (\<lambda>t. the (key_of (fst t))) terms). 0 \<le> i \<and> i < mx + 1"
  proof
    fix i assume "i \<in> set (map (\<lambda>t. the (key_of (fst t))) terms)"
    then obtain t where t: "t \<in> set terms" "i = the (key_of (fst t))" by auto
    from tkey [OF t(1)] obtain k where "k \<in> set keys" "key_of (fst t) = Some k" by blast
    with bound t(2) pos show "0 \<le> i \<and> i < mx + 1" by (auto simp: n_def)
  qed
  have zip: "zip (map nat (map (\<lambda>t. the (key_of (fst t))) terms)) (map snd terms) = map h terms"
    by (induction terms) (simp_all add: h_def)
  have "create_vector float64 (map (\<lambda>t. the (key_of (fst t))) terms) (map snd terms) (Fin 0)
          (Some (mx + 1)) = Inr vector"
    unfolding vector_def n_def zip [symmetric]
    using idx pos by (intro create_vector_shape) simp_all
  then have res: "fst (c_vec m s) = Inr vector"
    using vars all mx
    by (simp add: c_vec_def terms Let_def case_prod_beta tab keys_def [symmetric]
        labels_def [symmetric] comp_def)
  have lenv: "length vector = n" by (simp add: vector_def length_scatter)
  have size: "int (length vector) = Max (set (v_key df)) + 1"
    using pos by (simp add: lenv n_def mx_def keys_def)
  have dense: "length vector = N" if "set (v_key df) = int ` {0..<N}" for N
  proof -
    have "N \<noteq> 0"
    proof
      assume "N = 0"
      with that have "set (v_key df) = {}" by simp
      with ne show False by simp
    qed
    then have "N - 1 \<in> {0..<N}" by simp
    then have "int (N - 1) \<in> int ` {0..<N}" by (rule imageI)
    moreover have "y \<le> int (N - 1)" if "y \<in> int ` {0..<N}" for y
      using that by auto
    ultimately have "Max (int ` {0..<N}) = int (N - 1)"
      by (intro Max_eqI) simp_all
    with size that \<open>N \<noteq> 0\<close> show ?thesis by simp
  qed
  have at: "vector ! p =
      (case filter (\<lambda>(vars1, vars2, coeffs). (vars1 = - 1 \<or> vars2 = - 1)
                \<and> map_of (zip (v_labels df) (v_key df))
                     (if vars1 \<noteq> - 1 then vars1 else vars2) = Some (int p)) ds of
         [] \<Rightarrow> Fin 0
       | t # ts \<Rightarrow> snd (snd (last (t # ts))))" if p: "p < length vector" for p
  proof -
    define R where "R = (\<lambda>r. P r \<and> fst (h (g r)) = p)"
    define R' where "R' = (\<lambda>r. P r \<and> key_of (fst (g r)) = Some (int p))"
    have RR: "R r = R' r" if "r \<in> set ds" for r
    proof (cases "P r")
      case True
      from key [OF that True] obtain k where "k \<in> set keys" "key_of (fst (g r)) = Some k"
        by blast
      moreover from this bound have "0 \<le> k" by simp
      ultimately show ?thesis using True by (auto simp: R_def R'_def h_def)
    next
      case False
      then show ?thesis by (simp add: R_def R'_def)
    qed
    have f: "filter (\<lambda>(i, x). i = p) (map h terms) = map (h \<circ> g) (filter R' ds)"
    proof -
      have "filter (\<lambda>(i, x). i = p) (map h terms) = map (h \<circ> g) (filter R ds)"
        by (simp add: terms_def filter_map comp_def R_def case_prod_beta)
      also have "filter R ds = filter R' ds"
        using RR by (intro filter_cong) simp_all
      finally show ?thesis .
    qed
    have "vector ! p =
        (case filter (\<lambda>(i, x). i = p) (map h terms) of
           [] \<Rightarrow> replicate n (Fin 0) ! p | q # qs \<Rightarrow> snd (last (q # qs)))"
      unfolding vector_def using p lenv by (intro scatter_nth) simp
    also have "\<dots> = (case filter R' ds of [] \<Rightarrow> Fin 0 | t # ts \<Rightarrow> snd ((h \<circ> g) (last (t # ts))))"
      using p lenv by (simp add: f case_list_map split: list.split)
    also have "\<dots> = (case filter R' ds of [] \<Rightarrow> Fin 0 | t # ts \<Rightarrow> snd (snd (last (t # ts))))"
      by (simp add: h_def g_def case_prod_beta split: list.split)
    also have "R' = (\<lambda>(vars1, vars2, coeffs). (vars1 = - 1 \<or> vars2 = - 1)
                \<and> map_of (zip (v_labels df) (v_key df))
                     (if vars1 \<noteq> - 1 then vars1 else vars2) = Some (int p))"
      by (auto simp: R'_def P_def g_def key_of_def keys_def labels_def fun_eq_iff)
    finally show ?thesis .
  qed
  have "create_vector int64_array keys labels (- 1) None =
        Inr (scatter (replicate (nat (Max (set keys) + 1)) (- 1)) (zip (map nat keys) labels))"
    using ne len' nonneg by (intro create_vector_max) (simp_all add: keys_def)
  then have labs: "\<exists>vl. fst (vlabels m s) = Inr vl \<and> length vl = length vector"
    by (simp add: fst_vlabels tab keys_def labels_def length_scatter lenv n_def mx_def)
  from res size labs dense at show ?thesis by blast
qed

theorem c_vec_quadratic_witness:
  "fst (c_vec test_model fresh) = Inr [Fin 2, Fin 2, Fin 0, Fin 0]
   \<and> (\<exists>vector. fst (c_vec test_model fresh) = Inr vector
           \<and> int (length vector) = Max (set (v_key test_vars)) + 1
           \<and> (\<exists>vl. fst (vlabels test_model fresh) = Inr vl \<and> length vl = length vector)
           \<and> (\<forall>N. set (v_key test_vars) = int ` {0..<N} \<longrightarrow> length vector = N)
           \<and> (\<forall>p<length vector. vector ! p =
                 (case filter (\<lambda>(vars1, vars2, coeffs). (vars1 = - 1 \<or> vars2 = - 1)
                          \<and> map_of (zip (v_labels test_vars) (v_key test_vars))
                               (if vars1 \<noteq> - 1 then vars1 else vars2) = Some (int p))
                        [(0, - 1, Fin 2), (0, 2, Fin 1), (1, - 1, Fin 2), (1, 3, Fin 1)] of
                    [] \<Rightarrow> Fin 0
                  | t # ts \<Rightarrow> snd (snd (last (t # ts))))))"
proof -
  have q: "objective_expression test_model =
       QuadraticExpression [(0, - 1, Fin 2), (0, 2, Fin 1), (1, - 1, Fin 2), (1, 3, Fin 1)]
         test_matrix"
    by (simp add: test_model_def test_objective_def)
  have df: "test_vars = fst (flat_vars test_model fresh)"
    by (simp add: test_model_def flat_vars_def fresh_def)
  have len: "length (v_labels test_vars) = length (v_key test_vars)"
    and dist: "distinct (v_labels test_vars)"
    and ne: "v_key test_vars \<noteq> []"
    and nonneg: "\<forall>k\<in>set (v_key test_vars). 0 \<le> k"
    by (simp_all add: test_vars_def)
  have known: "\<forall>(vars1, vars2, coeffs)
        \<in>set [(0, - 1, Fin 2), (0, 2, Fin 1), (1, - 1, Fin 2), (1, 3, Fin 1)].
      vars1 = - 1 \<or> vars2 = - 1 \<longrightarrow>
        (if vars1 \<noteq> - 1 then vars1 else vars2) \<in> set (v_labels test_vars)"
    by (simp add: test_vars_def)
  have v: "fst (c_vec test_model fresh) = Inr [Fin 2, Fin 2, Fin 0, Fin 0]"
    by (simp add: example_defs eval_defs)
  from c_vec_quadratic [OF q df len dist ne nonneg known] v show ?thesis
    by blast
qed

end
